theory Spec2Isabelle
  imports Complex_Main
begin

section \<open>Values shared by the models\<close>

text \<open>
  A JavaScript Number used for money is a rational or \<open>NaN\<close>; rounding of IEEE doubles is
  not modelled. Arithmetic propagates \<open>NaN\<close> and every comparison with \<open>NaN\<close> is false,
  as in JavaScript. Stock counts and quantities are whole numbers (\<open>int\<close>).
\<close>

datatype jsnum = Num rat | NaN

fun jadd :: "jsnum \<Rightarrow> jsnum \<Rightarrow> jsnum" where
  "jadd (Num a) (Num b) = Num (a + b)"
| "jadd _ _ = NaN"

fun jsub :: "jsnum \<Rightarrow> jsnum \<Rightarrow> jsnum" where
  "jsub (Num a) (Num b) = Num (a - b)"
| "jsub _ _ = NaN"

fun jmul :: "jsnum \<Rightarrow> jsnum \<Rightarrow> jsnum" where
  "jmul (Num a) (Num b) = Num (a * b)"
| "jmul _ _ = NaN"

text \<open>Division is only used with a divisor that is not zero (the constant 100, or a sale
  item's quantity, which the schema keeps at 1 or more); a zero divisor gives \<open>NaN\<close> here.\<close>

fun jdiv :: "jsnum \<Rightarrow> jsnum \<Rightarrow> jsnum" where
  "jdiv (Num a) (Num b) = (if b = 0 then NaN else Num (a / b))"
| "jdiv _ _ = NaN"

fun jgt :: "jsnum \<Rightarrow> jsnum \<Rightarrow> bool" where
  "jgt (Num a) (Num b) = (a > b)"
| "jgt _ _ = False"

fun jge :: "jsnum \<Rightarrow> jsnum \<Rightarrow> bool" where
  "jge (Num a) (Num b) = (a \<ge> b)"
| "jge _ _ = False"

definition of_qty :: "int \<Rightarrow> jsnum" where
  "of_qty q = Num (of_int q)"

text \<open>\<open>x || 0\<close> on a Number: \<open>0\<close> and \<open>NaN\<close> are falsy.\<close>

fun or_zero :: "jsnum \<Rightarrow> jsnum" where
  "or_zero NaN = Num 0"
| "or_zero (Num a) = Num a"

text \<open>A \<open>Date\<close>: the epoch milliseconds and the local calendar fields the code reads.\<close>

record jsdate =
  epoch_ms :: int
  fullYear :: int
  month :: nat
  dayOfMonth :: nat

text \<open>\<open>toDateString()\<close> prints weekday, month, day and year; two dates print the same
  string exactly when they fall on the same calendar day.\<close>

definition toDateString :: "jsdate \<Rightarrow> int \<times> nat \<times> nat" where
  "toDateString d = (fullYear d, month d, dayOfMonth d)"

type_synonym oid = nat

datatype error =
    Error string
  | AppError string nat
  | ValidationError string
  | CastError string
  | ReferenceError string
  | TypeError string

section \<open>Product: the inventory ledger (models/Product.js)\<close>

datatype movement_type = purchase | sale | return | adjustment | damage | transfer

record stock_movement =
  sm_type :: movement_type
  sm_quantity :: int
  sm_previousStock :: int
  sm_newStock :: int
  sm_reference :: string
  sm_reason :: "string option"
  sm_performedBy :: oid
  sm_timestamp :: jsdate

record product =
  name :: string
  isActive :: bool
  sellingPrice :: jsnum
  pricingDiscount :: jsnum
  currentStock :: int
  trackInventory :: bool
  allowBackorder :: bool
  stockMovements :: "stock_movement list"
  totalSold :: int
  totalRevenue :: jsnum
  lastSoldDate :: "jsdate option"

text \<open>The virtual \<open>effectivePrice\<close>: \<open>sellingPrice * (1 - (pricing.discount || 0) / 100)\<close>.\<close>

definition effectivePrice :: "product \<Rightarrow> jsnum" where
  "effectivePrice p =
     jmul (sellingPrice p) (jsub (Num 1) (jdiv (or_zero (pricingDiscount p)) (Num 100)))"

text \<open>The \<open>switch\<close> of \<open>updateStock\<close> on the movement type.\<close>

fun proposedStock :: "movement_type \<Rightarrow> int \<Rightarrow> int \<Rightarrow> int" where
  "proposedStock sale previousStock quantity = previousStock - quantity"
| "proposedStock damage previousStock quantity = previousStock - quantity"
| "proposedStock transfer previousStock quantity = previousStock - quantity"
| "proposedStock purchase previousStock quantity = previousStock + quantity"
| "proposedStock return previousStock quantity = previousStock + quantity"
| "proposedStock adjustment previousStock quantity = previousStock + quantity"

text \<open>\<open>xs.slice(-n)\<close>: the last \<open>n\<close> elements.\<close>

definition slice_last :: "nat \<Rightarrow> 'a list \<Rightarrow> 'a list" where
  "slice_last n xs = drop (length xs - n) xs"

text \<open>
  \<open>save()\<close> runs the schema's validators before it writes. Of the paths \<open>updateStock\<close>
  modifies, \<open>inventory.currentStock\<close> carries one: \<open>min: [0, "Stock cannot be negative"]\<close>;
  the movement's \<open>type\<close> enum is the datatype. A document that fails is not written.
\<close>

definition product_save :: "product \<Rightarrow> error + product" where
  "product_save p =
     (if currentStock p < 0 then Inl (ValidationError ''Stock cannot be negative'')
      else Inr p)"

text \<open>The document as \<open>updateStock\<close> has mutated it when it reaches \<open>save()\<close>.\<close>

definition stockUpdated :: "jsdate \<Rightarrow> product \<Rightarrow> int \<Rightarrow> movement_type \<Rightarrow> string \<Rightarrow> oid
    \<Rightarrow> string option \<Rightarrow> product" where
  "stockUpdated now p quantity type reference userId reason =
     (let previousStock = currentStock p;
          newStock = proposedStock type previousStock quantity;
          p1 = p\<lparr>currentStock := newStock,
                 stockMovements := stockMovements p @
                   [\<lparr>sm_type = type, sm_quantity = quantity, sm_previousStock = previousStock,
                     sm_newStock = newStock, sm_reference = reference, sm_reason = reason,
                     sm_performedBy = userId, sm_timestamp = now\<rparr>]\<rparr>;
          p2 = (if length (stockMovements p1) > 100
                then p1\<lparr>stockMovements := slice_last 100 (stockMovements p1)\<rparr> else p1)
      in if type = sale
         then p2\<lparr>totalSold := totalSold p2 + quantity,
                 totalRevenue := jadd (totalRevenue p2) (jmul (of_qty quantity) (effectivePrice p2)),
                 lastSoldDate := Some now\<rparr>
         else p2)"

text \<open>\<open>productSchema.methods.updateStock\<close>: \<open>Inl\<close> is the exception thrown (nothing was
  written), \<open>Inr\<close> the saved document.\<close>

definition updateStock :: "jsdate \<Rightarrow> product \<Rightarrow> int \<Rightarrow> movement_type \<Rightarrow> string \<Rightarrow> oid
    \<Rightarrow> string option \<Rightarrow> error + product" where
  "updateStock now p quantity type reference userId reason =
     (if proposedStock type (currentStock p) quantity < 0 \<and> \<not> allowBackorder p
      then Inl (Error ''Insufficient stock'')
      else product_save (stockUpdated now p quantity type reference userId reason))"

section \<open>Counter: the sequence service (models/Counter.js)\<close>

datatype reset_period = daily | monthly | yearly | never

record counter =
  seq :: int
  prefix :: string
  suffix :: string
  lastReset :: jsdate
  resetPeriod :: reset_period

text \<open>The \<open>options\<close> object spread into \<open>create\<close>: a field that is absent takes the
  schema's default (\<open>seq: 0\<close>, empty prefix and suffix, \<open>lastReset: Date.now\<close>,
  \<open>resetPeriod: "never"\<close>).\<close>

record counter_options =
  opt_seq :: "int option"
  opt_prefix :: "string option"
  opt_suffix :: "string option"
  opt_lastReset :: "jsdate option"
  opt_resetPeriod :: "reset_period option"

definition no_options :: counter_options where
  "no_options = \<lparr>opt_seq = None, opt_prefix = None, opt_suffix = None,
     opt_lastReset = None, opt_resetPeriod = None\<rparr>"

definition or_default :: "'a option \<Rightarrow> 'a \<Rightarrow> 'a" where
  "or_default v d = (case v of None \<Rightarrow> d | Some x \<Rightarrow> x)"

definition counter_create :: "jsdate \<Rightarrow> counter_options \<Rightarrow> counter" where
  "counter_create now options =
     \<lparr>seq = or_default (opt_seq options) 0,
      prefix = or_default (opt_prefix options) [],
      suffix = or_default (opt_suffix options) [],
      lastReset = or_default (opt_lastReset options) now,
      resetPeriod = or_default (opt_resetPeriod options) never\<rparr>"

fun shouldReset :: "reset_period \<Rightarrow> jsdate \<Rightarrow> jsdate \<Rightarrow> bool" where
  "shouldReset daily now lr = (toDateString now \<noteq> toDateString lr)"
| "shouldReset monthly now lr = (month now \<noteq> month lr \<or> fullYear now \<noteq> fullYear lr)"
| "shouldReset yearly now lr = (fullYear now \<noteq> fullYear lr)"
| "shouldReset never now lr = False"

text \<open>\<open>counterSchema.statics.getNextSequence\<close>: the returned number and the collection
  after the call.\<close>

definition getNextSequence :: "jsdate \<Rightarrow> (string \<rightharpoonup> counter) \<Rightarrow> string \<Rightarrow> counter_options
    \<Rightarrow> int \<times> (string \<rightharpoonup> counter)" where
  "getNextSequence now cs counterId options =
     (case cs counterId of
        None \<Rightarrow>
          (let newCounter = counter_create now options
           in (seq newCounter, cs(counterId \<mapsto> newCounter)))
      | Some c \<Rightarrow>
          (let c' = (if shouldReset (resetPeriod c) now (lastReset c)
                     then c\<lparr>seq := 1, lastReset := now\<rparr>
                     else c\<lparr>seq := seq c + 1\<rparr>)
           in (seq c', cs(counterId \<mapsto> c'))))"

section \<open>Printing numbers\<close>

definition digit :: "nat \<Rightarrow> char" where
  "digit n = ''0123456789'' ! (n mod 10)"

function show_nat :: "nat \<Rightarrow> string" where
  "show_nat n = (if n < 10 then [digit n] else show_nat (n div 10) @ [digit n])"
  by pat_completeness auto
termination
  by (relation "measure id") auto

declare show_nat.simps [simp del]

definition show_int :: "int \<Rightarrow> string" where
  "show_int i = (if i < 0 then CHR ''-'' # show_nat (nat (- i)) else show_nat (nat i))"

text \<open>\<open>s.padStart(n, "0")\<close> and \<open>s.substr(-2)\<close>.\<close>

definition padStart0 :: "nat \<Rightarrow> string \<Rightarrow> string" where
  "padStart0 n s = replicate (n - length s) CHR ''0'' @ s"

section \<open>Sale: documents and pre-save hooks (models/Sale.js)\<close>

datatype sale_status = completed | voided | refunded | partial_refund

datatype payment_method = cash | mpesa | card | bank_transfer | credit | mixed

text \<open>An item as the schema stores it. The schema's \<open>tax\<close> has the single path
  \<open>amount\<close>: a \<open>rate\<close> sent with a request is not a path of the schema and is not kept.\<close>

record sale_item =
  si_product :: oid
  si_productName :: string
  si_quantity :: int
  si_unitPrice :: jsnum
  si_discountAmount :: jsnum
  si_discountPercentage :: jsnum
  si_taxAmount :: jsnum
  si_subtotal :: jsnum

record sale_totals =
  tot_subtotal :: jsnum
  tot_discount :: jsnum
  tot_tax :: jsnum
  tot_total :: jsnum

record payment_detail =
  pd_method :: payment_method
  pd_amount :: jsnum
  pd_reference :: "string option"
  pd_transactionId :: "string option"

record void_info =
  voidedBy :: oid
  voidedAt :: jsdate
  void_reason :: string

record refunded_item =
  rf_product :: oid
  rf_quantity :: int
  rf_amount :: jsnum

record refund_info =
  refundedBy :: oid
  refundedAt :: jsdate
  refundedItems :: "refunded_item list"
  totalRefunded :: jsnum
  refund_reason :: string

record sale_doc =
  s_id :: oid
  receiptNumber :: string
  s_items :: "sale_item list"
  s_customer :: "oid option"
  s_paymentMethod :: payment_method
  s_paymentDetails :: "payment_detail list"
  s_totalPaid :: jsnum
  s_totals :: sale_totals
  seller :: oid
  s_status :: sale_status
  voidInfo :: "void_info option"
  refundInfo :: "refund_info option"

text \<open>\<open>item.tax.rate\<close> in the totals hook reads a path the schema does not declare, so
  the value is \<open>undefined\<close>; in arithmetic \<open>undefined\<close> is \<open>NaN\<close>.\<close>

definition item_tax_rate :: "sale_item \<Rightarrow> jsnum" where
  "item_tax_rate item = NaN"

definition itemSubtotal :: "sale_item \<Rightarrow> jsnum" where
  "itemSubtotal item = jmul (si_unitPrice item) (of_qty (si_quantity item))"

definition itemDiscount :: "sale_item \<Rightarrow> jsnum" where
  "itemDiscount item =
     (if jgt (si_discountPercentage item) (Num 0)
      then jmul (itemSubtotal item) (jdiv (si_discountPercentage item) (Num 100))
      else if jgt (si_discountAmount item) (Num 0) then si_discountAmount item
      else Num 0)"

definition taxableAmount :: "sale_item \<Rightarrow> jsnum" where
  "taxableAmount item = jsub (itemSubtotal item) (itemDiscount item)"

definition itemTax :: "sale_item \<Rightarrow> jsnum" where
  "itemTax item = jmul (taxableAmount item) (jdiv (item_tax_rate item) (Num 100))"

text \<open>Assigning a value to a \<open>Number\<close> path of a document: \<open>NaN\<close> cannot be cast to
  a number, the assignment is refused and the path keeps the value it had.\<close>

fun assign_number :: "jsnum \<Rightarrow> jsnum \<Rightarrow> jsnum" where
  "assign_number prior NaN = prior"
| "assign_number prior (Num a) = Num a"

text \<open>The body of the \<open>forEach\<close>: the assignments to the item's \<open>tax.amount\<close> and
  \<open>subtotal\<close>.\<close>

definition item_computed :: "sale_item \<Rightarrow> sale_item" where
  "item_computed item =
     item\<lparr>si_taxAmount := assign_number (si_taxAmount item) (itemTax item),
          si_subtotal := assign_number (si_subtotal item)
                           (jadd (taxableAmount item) (itemTax item))\<rparr>"

text \<open>The three running sums of the hook, starting from 0 and added to item by item.\<close>

fun sum_items :: "(sale_item \<Rightarrow> jsnum) \<Rightarrow> jsnum \<Rightarrow> sale_item list \<Rightarrow> jsnum" where
  "sum_items f acc [] = acc"
| "sum_items f acc (item # items) = sum_items f (jadd acc (f item)) items"

text \<open>The second \<open>pre("save")\<close> hook, for a new document or modified items. It runs
  after the document has been validated, so a refused assignment does not stop the save.\<close>

definition calculate_totals :: "sale_doc \<Rightarrow> sale_doc" where
  "calculate_totals this =
     (let subtotal = sum_items itemSubtotal (Num 0) (s_items this);
          totalDiscount = sum_items itemDiscount (Num 0) (s_items this);
          totalTax = sum_items itemTax (Num 0) (s_items this);
          prior = s_totals this
      in this\<lparr>s_items := map item_computed (s_items this),
              s_totals :=
                \<lparr>tot_subtotal = assign_number (tot_subtotal prior) subtotal,
                 tot_discount = assign_number (tot_discount prior) totalDiscount,
                 tot_tax = assign_number (tot_tax prior) totalTax,
                 tot_total = assign_number (tot_total prior)
                               (jadd (jsub subtotal totalDiscount) totalTax)\<rparr>\<rparr>)"

text \<open>The first \<open>pre("save")\<close> hook: \<open>RCP\<close>, two digits each of year, month and day,
  and the sequence number padded to five digits. \<open>getMonth()\<close> counts from 0.\<close>

definition receipt_text :: "jsdate \<Rightarrow> int \<Rightarrow> string" where
  "receipt_text date sequence =
     ''RCP'' @ slice_last 2 (show_int (fullYear date))
       @ padStart0 2 (show_nat (month date + 1))
       @ padStart0 2 (show_nat (dayOfMonth date))
       @ padStart0 5 (show_int sequence)"

section \<open>The collections\<close>

datatype order_status =
  Pending | Confirmed | Processing | Ready | OutForDelivery | Delivered | Cancelled | Failed

record order_item =
  oi_product :: oid
  oi_productName :: string
  oi_quantity :: int
  oi_unitPrice :: jsnum

text \<open>An entry of \<open>statusHistory\<close>. Its \<open>location\<close> is the pair of numbers
  \<open>latitude\<close> and \<open>longitude\<close>.\<close>

record status_entry =
  se_status :: order_status
  se_timestamp :: jsdate
  se_updatedBy :: "oid option"
  se_notes :: "string option"
  se_latitude :: "rat option"
  se_longitude :: "rat option"

text \<open>The \<open>location\<close> of a status request: absent, a text, or an object with numbers
  for \<open>latitude\<close> and \<open>longitude\<close>, each of which may be missing.\<close>

datatype location_request =
    NoLocation
  | LocationText string
  | Coordinates "rat option" "rat option"

datatype order_payment_status = pay_pending | pay_partial | pay_paid | pay_refunded

record order_doc =
  o_id :: oid
  orderNumber :: string
  o_customer :: "oid option"
  o_items :: "order_item list"
  o_status :: order_status
  statusHistory :: "status_entry list"
  assignedTo :: "oid option"
  createdBy :: oid
  o_paymentStatus :: order_payment_status
  actualDeliveryDate :: "jsdate option"
  cancelledBy :: "oid option"
  cancelledAt :: "jsdate option"
  customerNotified :: "bool option"
  packingCompleted :: "jsdate option"

text \<open>A parsed JSON value; a number is a whole number.\<close>

datatype json =
    JUndefined
  | JNull
  | JBool bool
  | JNum int
  | JStr string
  | JArr "json list"
  | JObj "(string \<times> json) list"

datatype mpesa_status = tx_pending | tx_success | tx_failed | tx_cancelled

record mpesa_transaction =
  checkoutRequestId :: string
  merchantRequestId :: string
  phoneNumber :: string
  amount :: int
  t_status :: mpesa_status
  mpesaReceiptNumber :: "string option"
  transactionDate :: "string option"
  resultCode :: "string option"
  resultDesc :: "string option"
  callbackData :: "json option"
  t_sale :: "oid option"
  retryCount :: int
  lastQueryAt :: "jsdate option"

record db =
  products :: "oid \<rightharpoonup> product"
  sales :: "oid \<rightharpoonup> sale_doc"
  orders :: "oid \<rightharpoonup> order_doc"
  counters :: "string \<rightharpoonup> counter"
  mpesaTransactions :: "mpesa_transaction list"

section \<open>Sale: void and refund (models/Sale.js)\<close>

text \<open>\<open>Product.findById\<close> followed by \<open>if (product) await product.updateStock(quantity,
  "return", ...)\<close>: the product collection after the step, or the exception.\<close>

definition restoreStock :: "jsdate \<Rightarrow> (oid \<rightharpoonup> product) \<Rightarrow> oid \<Rightarrow> int \<Rightarrow> string \<Rightarrow> oid
    \<Rightarrow> string \<Rightarrow> error + (oid \<rightharpoonup> product)" where
  "restoreStock now ps productId quantity reference userId reason =
     (case ps productId of
        None \<Rightarrow> Inr ps
      | Some p \<Rightarrow>
          (case updateStock now p quantity return reference userId (Some reason) of
             Inl e \<Rightarrow> Inl e
           | Inr p' \<Rightarrow> Inr (ps(productId \<mapsto> p'))))"

text \<open>The loop of \<open>void\<close> over the sale's items. An exception leaves the products already
  written as they are.\<close>

fun void_items :: "jsdate \<Rightarrow> (oid \<rightharpoonup> product) \<Rightarrow> sale_item list \<Rightarrow> string \<Rightarrow> oid \<Rightarrow> string
    \<Rightarrow> error option \<times> (oid \<rightharpoonup> product)" where
  "void_items now ps [] reference userId reason = (None, ps)"
| "void_items now ps (item # items) reference userId reason =
     (case restoreStock now ps (si_product item) (si_quantity item) reference userId
             (''Voided sale: '' @ reason) of
        Inl e \<Rightarrow> (Some e, ps)
      | Inr ps' \<Rightarrow> void_items now ps' items reference userId reason)"

text \<open>\<open>saleSchema.methods.void\<close>, named \<open>void_sale\<close>.\<close>

definition void_sale :: "jsdate \<Rightarrow> db \<Rightarrow> sale_doc \<Rightarrow> oid \<Rightarrow> string \<Rightarrow> (error + sale_doc) \<times> db" where
  "void_sale now d this userId reason =
     (if s_status this = voided then (Inl (Error ''Sale is already voided''), d)
      else
        (let this' = this\<lparr>s_status := voided,
               voidInfo := Some \<lparr>voidedBy = userId, voidedAt = now, void_reason = reason\<rparr>\<rparr>
         in case void_items now (products d) (s_items this') (receiptNumber this') userId reason of
              (Some e, ps) \<Rightarrow> (Inl e, d\<lparr>products := ps\<rparr>)
            | (None, ps) \<Rightarrow>
                (Inr this', d\<lparr>products := ps, sales := (sales d)(s_id this' \<mapsto> this')\<rparr>)))"

record refund_request_item =
  rq_productId :: oid
  rq_quantity :: int

text \<open>The loop of \<open>refund\<close> over the requested items, with the accumulators
  \<open>refundedItems\<close> and \<open>totalRefunded\<close>.\<close>

fun refund_items :: "jsdate \<Rightarrow> (oid \<rightharpoonup> product) \<Rightarrow> sale_doc \<Rightarrow> refund_request_item list \<Rightarrow> oid
    \<Rightarrow> string \<Rightarrow> refunded_item list \<times> jsnum
    \<Rightarrow> (error + refunded_item list \<times> jsnum) \<times> (oid \<rightharpoonup> product)" where
  "refund_items now ps this [] userId reason acc = (Inr acc, ps)"
| "refund_items now ps this (refundItem # items) userId reason acc =
     (case find (\<lambda>item. si_product item = rq_productId refundItem) (s_items this) of
        None \<Rightarrow>
          (Inl (Error (''Product '' @ show_nat (rq_productId refundItem) @ '' not found in sale'')),
           ps)
      | Some saleItem \<Rightarrow>
          (if rq_quantity refundItem > si_quantity saleItem
           then (Inl (Error ''Cannot refund more than sold quantity''), ps)
           else
             (let refundAmount =
                    jmul (jdiv (si_subtotal saleItem) (of_qty (si_quantity saleItem)))
                      (of_qty (rq_quantity refundItem));
                  acc' = (fst acc @ [\<lparr>rf_product = rq_productId refundItem,
                             rf_quantity = rq_quantity refundItem, rf_amount = refundAmount\<rparr>],
                          jadd (snd acc) refundAmount)
              in case restoreStock now ps (rq_productId refundItem) (rq_quantity refundItem)
                        (receiptNumber this) userId (''Refund: '' @ reason) of
                   Inl e \<Rightarrow> (Inl e, ps)
                 | Inr ps' \<Rightarrow> refund_items now ps' this items userId reason acc')))"

text \<open>\<open>saleSchema.methods.refund\<close>.\<close>

definition refund :: "jsdate \<Rightarrow> db \<Rightarrow> sale_doc \<Rightarrow> oid \<Rightarrow> refund_request_item list \<Rightarrow> string
    \<Rightarrow> (error + sale_doc) \<times> db" where
  "refund now d this userId items reason =
     (if s_status this = voided then (Inl (Error ''Cannot refund a voided sale''), d)
      else
        (case refund_items now (products d) this items userId reason ([], Num 0) of
           (Inl e, ps) \<Rightarrow> (Inl e, d\<lparr>products := ps\<rparr>)
         | (Inr (refundedItems', totalRefunded'), ps) \<Rightarrow>
             (let this' = this\<lparr>refundInfo := Some \<lparr>refundedBy = userId, refundedAt = now,
                      refundedItems = refundedItems', totalRefunded = totalRefunded',
                      refund_reason = reason\<rparr>,
                    s_status := (if jge totalRefunded' (tot_total (s_totals this))
                                 then refunded else partial_refund)\<rparr>
              in (Inr this', d\<lparr>products := ps, sales := (sales d)(s_id this' \<mapsto> this')\<rparr>))))"

text \<open>The controller \<open>refundSale\<close> up to the call of the method: the sale is loaded by id
  and an exception of the method becomes an \<open>AppError\<close> with status 400. The customer
  statistics and the activity log it writes afterwards are collections outside \<open>db\<close>.\<close>

fun error_message :: "error \<Rightarrow> string" where
  "error_message (Error m) = m"
| "error_message (AppError m c) = m"
| "error_message (ValidationError m) = m"
| "error_message (CastError m) = m"
| "error_message (ReferenceError m) = m"
| "error_message (TypeError m) = m"

definition refundSale :: "jsdate \<Rightarrow> db \<Rightarrow> oid \<Rightarrow> oid \<Rightarrow> refund_request_item list \<Rightarrow> string
    \<Rightarrow> (error + sale_doc) \<times> db" where
  "refundSale now d saleId userId items reason =
     (case sales d saleId of
        None \<Rightarrow> (Inl (AppError ''Sale not found'' 404), d)
      | Some saleDoc \<Rightarrow>
          (case refund now d saleDoc userId items reason of
             (Inl e, d') \<Rightarrow> (Inl (AppError (error_message e) 400), d')
           | (Inr saleDoc', d') \<Rightarrow> (Inr saleDoc', d')))"

definition voidSale :: "jsdate \<Rightarrow> db \<Rightarrow> oid \<Rightarrow> oid \<Rightarrow> string \<Rightarrow> (error + sale_doc) \<times> db" where
  "voidSale now d saleId userId reason =
     (case sales d saleId of
        None \<Rightarrow> (Inl (AppError ''Sale not found'' 404), d)
      | Some saleDoc \<Rightarrow>
          (case void_sale now d saleDoc userId reason of
             (Inl e, d') \<Rightarrow> (Inl (AppError (error_message e) 400), d')
           | (Inr saleDoc', d') \<Rightarrow> (Inr saleDoc', d')))"

section \<open>Creating a sale (controllers/saleController.js)\<close>

text \<open>An item of the request body. \<open>rq_taxRate\<close> is what a client may send as
  \<open>tax.rate\<close>; the schema has no such path, so the document built from the request does
  not carry it.\<close>

record sale_request_item =
  rq_product :: oid
  rq_qty :: int
  rq_unitPrice :: "jsnum option"
  rq_discountAmount :: "jsnum option"
  rq_discountPercentage :: "jsnum option"
  rq_taxAmount :: "jsnum option"
  rq_taxRate :: "jsnum option"
  rq_subtotal :: "jsnum option"

record sale_request =
  rq_items :: "sale_request_item list"
  rq_customer :: "oid option"
  rq_paymentMethod :: payment_method
  rq_paymentDetails :: "payment_detail list"
  rq_totalPaid :: "jsnum option"

text \<open>\<open>item.unitPrice || product.effectivePrice\<close>: an absent, zero or \<open>NaN\<close> price is
  falsy.\<close>

fun price_or :: "jsnum option \<Rightarrow> jsnum \<Rightarrow> jsnum" where
  "price_or None d = d"
| "price_or (Some NaN) d = d"
| "price_or (Some (Num a)) d = (if a = 0 then d else Num a)"

text \<open>The first loop of \<open>createSale\<close>: every item's product must exist, be active and,
  when it tracks inventory without backorder, have the quantity in stock. The item leaves
  the loop with the product's name and a unit price, as the schema casts it: a path with
  a default takes it when the request gives no value, and a path without one (the
  \<open>subtotal\<close>) that the request does not give is written \<open>NaN\<close>, which no stored
  number is.\<close>

fun validate_items :: "(oid \<rightharpoonup> product) \<Rightarrow> sale_request_item list \<Rightarrow> error + sale_item list" where
  "validate_items ps [] = Inr []"
| "validate_items ps (item # items) =
     (case ps (rq_product item) of
        None \<Rightarrow> Inl (AppError (''Product '' @ show_nat (rq_product item) @ '' not found'') 404)
      | Some p \<Rightarrow>
          (if \<not> isActive p then Inl (AppError (''Product '' @ name p @ '' is not available'') 400)
           else if trackInventory p \<and> currentStock p < rq_qty item \<and> \<not> allowBackorder p
           then Inl (AppError (''Insufficient stock for '' @ name p @ ''. Available: ''
                       @ show_int (currentStock p)) 400)
           else
             (case validate_items ps items of
                Inl e \<Rightarrow> Inl e
              | Inr rest \<Rightarrow>
                  Inr (\<lparr>si_product = rq_product item, si_productName = name p,
                        si_quantity = rq_qty item,
                        si_unitPrice = price_or (rq_unitPrice item) (effectivePrice p),
                        si_discountAmount = or_default (rq_discountAmount item) (Num 0),
                        si_discountPercentage = or_default (rq_discountPercentage item) (Num 0),
                        si_taxAmount = or_default (rq_taxAmount item) (Num 0),
                        si_subtotal = or_default (rq_subtotal item) NaN\<rparr> # rest))))"

text \<open>\<open>payment.details?.[0]?.transactionId\<close>, when it is truthy.\<close>

fun first_transactionId :: "payment_detail list \<Rightarrow> string option" where
  "first_transactionId [] = None"
| "first_transactionId (detail # details) =
     (case pd_transactionId detail of
        None \<Rightarrow> None
      | Some t \<Rightarrow> (if t = [] then None else Some t))"

text \<open>
  The M-Pesa check of \<open>createSale\<close>. \<open>None\<close>: the check does not apply. Where it
  applies it cannot pass: when a successful transaction with the receipt number is found,
  the next statement is \<open>mpesaTransaction.sale = sale._id\<close>, and \<open>sale\<close> is a
  \<open>const\<close> declared further down in the same function, so reading it throws a
  \<open>ReferenceError\<close>.
\<close>

definition mpesa_check :: "mpesa_transaction list \<Rightarrow> sale_request \<Rightarrow> error option" where
  "mpesa_check txs req =
     (if rq_paymentMethod req = mpesa then
        (case first_transactionId (rq_paymentDetails req) of
           None \<Rightarrow> None
         | Some tid \<Rightarrow>
             (case find (\<lambda>t. mpesaReceiptNumber t = Some tid \<and> t_status t = tx_success) txs of
                None \<Rightarrow> Some (AppError ''Invalid M-Pesa transaction'' 400)
              | Some mpesaTransaction \<Rightarrow>
                  Some (ReferenceError ''Cannot access sale before initialization'')))
      else None)"

text \<open>The last modelled loop of \<open>createSale\<close>: one \<open>sale\<close> movement for every item whose
  product tracks inventory. \<open>product.inventory\<close> is read without a null check.\<close>

fun sell_items :: "jsdate \<Rightarrow> (oid \<rightharpoonup> product) \<Rightarrow> sale_item list \<Rightarrow> string \<Rightarrow> oid
    \<Rightarrow> error option \<times> (oid \<rightharpoonup> product)" where
  "sell_items now ps [] reference userId = (None, ps)"
| "sell_items now ps (item # items) reference userId =
     (case ps (si_product item) of
        None \<Rightarrow> (Some (TypeError ''Cannot read properties of null''), ps)
      | Some p \<Rightarrow>
          (if trackInventory p then
             (case updateStock now p (si_quantity item) sale reference userId None of
                Inl e \<Rightarrow> (Some e, ps)
              | Inr p' \<Rightarrow> sell_items now (ps(si_product item \<mapsto> p')) items reference userId)
           else sell_items now ps items reference userId))"

text \<open>\<open>min\<close> and \<open>max\<close> validators on a number that is present.\<close>

fun at_least :: "rat \<Rightarrow> jsnum \<Rightarrow> bool" where
  "at_least lo (Num a) = (lo \<le> a)"
| "at_least lo NaN = False"

fun at_most :: "rat \<Rightarrow> jsnum \<Rightarrow> bool" where
  "at_most hi (Num a) = (a \<le> hi)"
| "at_most hi NaN = False"

text \<open>
  The validation \<open>save()\<close> runs on the new sale before any \<open>pre("save")\<close> hook, on the
  paths the model carries. An item needs a quantity of 1 or more, a unit price of 0 or
  more, a discount percentage from 0 to 100, numbers for the discount and tax amounts,
  and a \<open>subtotal\<close>, which is required and has no default; the payment needs
  \<open>totalPaid\<close>, required and 0 or more.
\<close>

definition item_valid :: "sale_item \<Rightarrow> bool" where
  "item_valid item =
     (1 \<le> si_quantity item \<and> at_least 0 (si_unitPrice item)
      \<and> at_least 0 (si_discountPercentage item) \<and> at_most 100 (si_discountPercentage item)
      \<and> si_discountAmount item \<noteq> NaN \<and> si_taxAmount item \<noteq> NaN
      \<and> si_subtotal item \<noteq> NaN)"

definition sale_valid :: "sale_item list \<Rightarrow> jsnum option \<Rightarrow> bool" where
  "sale_valid items totalPaid =
     (list_all item_valid items \<and> at_least 0 (or_default totalPaid NaN))"

text \<open>
  \<open>createSale\<close> up to the end of the stock loop. \<open>newId\<close> is the \<open>_id\<close> of the new
  document. \<open>valid\<close> says whether the paths of the new document that the model does not
  carry (\<open>payment.change\<close>, \<open>customerInfo\<close>, \<open>metadata\<close>) pass validation; the paths it
  carries are checked by \<open>sale_valid\<close>. What follows in the controller (customer
  statistics, activity log, the response) writes to collections outside \<open>db\<close>.
\<close>

definition createSale :: "jsdate \<Rightarrow> db \<Rightarrow> sale_request \<Rightarrow> oid \<Rightarrow> oid \<Rightarrow> bool
    \<Rightarrow> (error + sale_doc) \<times> db" where
  "createSale now d req userId newId valid =
     (case validate_items (products d) (rq_items req) of
        Inl e \<Rightarrow> (Inl e, d)
      | Inr items \<Rightarrow>
          (case mpesa_check (mpesaTransactions d) req of
             Some e \<Rightarrow> (Inl e, d)
           | None \<Rightarrow>
               (if \<not> (valid \<and> sale_valid items (rq_totalPaid req))
                then (Inl (ValidationError ''Sale validation failed''), d)
                else
                  (let (sequence, cs) = getNextSequence now (counters d) ''receipt'' no_options;
                       saleDoc = calculate_totals
                         \<lparr>s_id = newId, receiptNumber = receipt_text now sequence,
                          s_items = items, s_customer = rq_customer req,
                          s_paymentMethod = rq_paymentMethod req,
                          s_paymentDetails = rq_paymentDetails req,
                          s_totalPaid = or_default (rq_totalPaid req) NaN,
                          s_totals = \<lparr>tot_subtotal = Num 0, tot_discount = Num 0,
                             tot_tax = Num 0, tot_total = Num 0\<rparr>,
                          seller = userId, s_status = completed,
                          voidInfo = None, refundInfo = None\<rparr>;
                       d1 = d\<lparr>counters := cs, sales := (sales d)(newId \<mapsto> saleDoc)\<rparr>
                   in case sell_items now (products d1) (s_items saleDoc)
                             (receiptNumber saleDoc) userId of
                        (Some e, ps) \<Rightarrow> (Inl e, d1\<lparr>products := ps\<rparr>)
                      | (None, ps) \<Rightarrow> (Inr saleDoc, d1\<lparr>products := ps\<rparr>)))))"

section \<open>Orders (models/Order.js, controllers/orderController.js)\<close>

fun status_name :: "order_status \<Rightarrow> string" where
  "status_name Pending = ''pending''"
| "status_name Confirmed = ''confirmed''"
| "status_name Processing = ''processing''"
| "status_name Ready = ''ready''"
| "status_name OutForDelivery = ''out_for_delivery''"
| "status_name Delivered = ''delivered''"
| "status_name Cancelled = ''cancelled''"
| "status_name Failed = ''failed''"

text \<open>The table \<open>validTransitions\<close> of \<open>updateOrderStatus\<close>. The route validates the
  requested status against the same eight names, so it is an \<open>order_status\<close>.\<close>

fun validTransitions :: "order_status \<Rightarrow> order_status list" where
  "validTransitions Pending = [Confirmed, Cancelled]"
| "validTransitions Confirmed = [Processing, Cancelled]"
| "validTransitions Processing = [Ready, Cancelled]"
| "validTransitions Ready = [OutForDelivery, Delivered, Cancelled]"
| "validTransitions OutForDelivery = [Delivered, Failed]"
| "validTransitions Delivered = []"
| "validTransitions Cancelled = []"
| "validTransitions Failed = [OutForDelivery, Cancelled]"

text \<open>The \<open>switch\<close> of \<open>updateStatus\<close> on the new status.\<close>

fun status_fields :: "jsdate \<Rightarrow> oid \<Rightarrow> order_status \<Rightarrow> order_doc \<Rightarrow> order_doc" where
  "status_fields now userId Confirmed this = this\<lparr>customerNotified := Some False\<rparr>"
| "status_fields now userId Ready this = this\<lparr>packingCompleted := Some now\<rparr>"
| "status_fields now userId Delivered this =
     this\<lparr>actualDeliveryDate := Some now, o_paymentStatus := pay_paid\<rparr>"
| "status_fields now userId Cancelled this =
     this\<lparr>cancelledBy := Some userId, cancelledAt := Some now\<rparr>"
| "status_fields now userId _ this = this"

text \<open>\<open>this.assignedTo || this.createdBy\<close>.\<close>

definition assigned_or_creator :: "order_doc \<Rightarrow> oid" where
  "assigned_or_creator this = or_default (assignedTo this) (createdBy this)"

text \<open>The \<open>pre("save")\<close> hook on the status: \<open>isModified("status")\<close> holds when the
  status differs from the one the document was loaded with.\<close>

definition status_hook :: "jsdate \<Rightarrow> order_status \<Rightarrow> order_doc \<Rightarrow> order_doc" where
  "status_hook now loaded this =
     (if o_status this \<noteq> loaded
      then this\<lparr>statusHistory := statusHistory this @
             [\<lparr>se_status = o_status this, se_timestamp = now,
               se_updatedBy = Some (assigned_or_creator this),
               se_notes = None, se_latitude = None, se_longitude = None\<rparr>]\<rparr>
      else this)"

text \<open>Casting the request's location to the entry's: a text is not an object with the two
  numbers and nothing of it is kept.\<close>

fun cast_latitude :: "location_request \<Rightarrow> rat option" where
  "cast_latitude (Coordinates la lo) = la"
| "cast_latitude _ = None"

fun cast_longitude :: "location_request \<Rightarrow> rat option" where
  "cast_longitude (Coordinates la lo) = lo"
| "cast_longitude _ = None"

text \<open>\<open>orderSchema.methods.updateStatus\<close>: the saved document. The paths it writes
  carry no validator that can fail for a status of the enum.\<close>

definition updateStatus :: "jsdate \<Rightarrow> order_doc \<Rightarrow> order_status \<Rightarrow> oid \<Rightarrow> string option
    \<Rightarrow> location_request \<Rightarrow> order_doc" where
  "updateStatus now this newStatus userId notes location =
     (let this1 = this\<lparr>o_status := newStatus,
             statusHistory := statusHistory this @
               [\<lparr>se_status = newStatus, se_timestamp = now, se_updatedBy = Some userId,
                 se_notes = notes, se_latitude = cast_latitude location,
                 se_longitude = cast_longitude location\<rparr>]\<rparr>
      in status_hook now (o_status this) (status_fields now userId newStatus this1))"

text \<open>The delivery loop of \<open>updateOrderStatus\<close>: a \<open>sale\<close> movement for every item whose
  product exists and tracks inventory.\<close>

fun deliver_items :: "jsdate \<Rightarrow> (oid \<rightharpoonup> product) \<Rightarrow> order_item list \<Rightarrow> string \<Rightarrow> oid
    \<Rightarrow> error option \<times> (oid \<rightharpoonup> product)" where
  "deliver_items now ps [] reference userId = (None, ps)"
| "deliver_items now ps (item # items) reference userId =
     (case ps (oi_product item) of
        None \<Rightarrow> deliver_items now ps items reference userId
      | Some p \<Rightarrow>
          (if trackInventory p then
             (case updateStock now p (oi_quantity item) sale reference userId
                     (Some ''Order delivered'') of
                Inl e \<Rightarrow> (Some e, ps)
              | Inr p' \<Rightarrow> deliver_items now (ps(oi_product item \<mapsto> p')) items reference userId)
           else deliver_items now ps items reference userId))"

text \<open>
  \<open>updateOrderStatus\<close>. After the stock loop the controller reads
  \<open>settings.notifications.sms.enabled\<close>; no \<open>settings\<close> is in scope in this function,
  so every request that passed the transition check ends in a \<open>ReferenceError\<close>, after
  the order and the products have been written. The customer statistics updated on
  delivery are a collection outside \<open>db\<close>, and that update is taken to return.
\<close>

definition updateOrderStatus :: "jsdate \<Rightarrow> db \<Rightarrow> oid \<Rightarrow> order_status \<Rightarrow> string option
    \<Rightarrow> location_request \<Rightarrow> oid \<Rightarrow> error \<times> db" where
  "updateOrderStatus now d orderId status notes location userId =
     (case orders d orderId of
        None \<Rightarrow> (AppError ''Order not found'' 404, d)
      | Some order \<Rightarrow>
          (if status \<notin> set (validTransitions (o_status order))
           then (AppError (''Cannot change status from '' @ status_name (o_status order)
                    @ '' to '' @ status_name status) 400, d)
           else
             (let order' = updateStatus now order status userId notes location;
                  d1 = d\<lparr>orders := (orders d)(orderId \<mapsto> order')\<rparr>
              in if status = Delivered then
                   (case deliver_items now (products d1) (o_items order') (orderNumber order')
                           userId of
                      (Some e, ps) \<Rightarrow> (e, d1\<lparr>products := ps\<rparr>)
                    | (None, ps) \<Rightarrow>
                        (ReferenceError ''settings is not defined'', d1\<lparr>products := ps\<rparr>))
                 else (ReferenceError ''settings is not defined'', d1))))"




section \<open>M-Pesa reconciliation (controllers/saleController.js)\<close>

subsection \<open>Reading a parsed JSON body\<close>

text \<open>\<open>v.k\<close>: a \<open>TypeError\<close> on \<open>undefined\<close> and \<open>null\<close>, the member of an object, and
  \<open>undefined\<close> for a missing member or any other value (the names read here are not
  properties of strings, numbers or arrays).\<close>

fun get_prop :: "json \<Rightarrow> string \<Rightarrow> error + json" where
  "get_prop JUndefined k = Inl (TypeError ''Cannot read properties of undefined'')"
| "get_prop JNull k = Inl (TypeError ''Cannot read properties of null'')"
| "get_prop (JObj kvs) k = Inr (or_default (map_of kvs k) JUndefined)"
| "get_prop _ k = Inr JUndefined"

fun truthy :: "json \<Rightarrow> bool" where
  "truthy JUndefined = False"
| "truthy JNull = False"
| "truthy (JBool b) = b"
| "truthy (JNum n) = (n \<noteq> 0)"
| "truthy (JStr s) = (s \<noteq> [])"
| "truthy _ = True"

fun join_comma :: "string list \<Rightarrow> string" where
  "join_comma [] = []"
| "join_comma [s] = s"
| "join_comma (s # t # ss) = s @ '','' @ join_comma (t # ss)"

text \<open>Conversion to a string; \<open>None\<close> is the \<open>TypeError\<close> of an object whose own
  \<open>toString\<close> member is not a function. An array joins its elements with commas,
  \<open>null\<close> and \<open>undefined\<close> elements as empty strings.\<close>

fun js_String :: "json \<Rightarrow> string option" where
  "js_String JUndefined = Some ''undefined''"
| "js_String JNull = Some ''null''"
| "js_String (JBool b) = Some (if b then ''true'' else ''false'')"
| "js_String (JNum n) = Some (show_int n)"
| "js_String (JStr s) = Some s"
| "js_String (JArr xs) =
     (let parts = map (\<lambda>x. if x = JUndefined \<or> x = JNull then Some [] else js_String x) xs
      in if list_all (\<lambda>p. p \<noteq> None) parts then Some (join_comma (map the parts)) else None)"
| "js_String (JObj kvs) =
     (if map_of kvs ''toString'' = None then Some ''[object Object]'' else None)"

text \<open>\<open>v.toString()\<close>.\<close>

definition toString :: "json \<Rightarrow> error + string" where
  "toString v =
     (if v = JUndefined \<or> v = JNull then Inl (TypeError ''Cannot read properties of undefined'')
      else case js_String v of
             None \<Rightarrow> Inl (TypeError ''toString is not a function'')
           | Some s \<Rightarrow> Inr s)"

text \<open>Assigning a value to a \<open>String\<close> path of the schema: \<open>undefined\<close> and \<open>null\<close>
  leave it empty, a string, number or boolean is stored as text, and an array or object
  cannot be cast, which makes \<open>save()\<close> reject.\<close>

fun cast_string :: "json \<Rightarrow> error + string option" where
  "cast_string JUndefined = Inr None"
| "cast_string JNull = Inr None"
| "cast_string (JArr xs) = Inl (ValidationError ''Cast to string failed'')"
| "cast_string (JObj kvs) = Inl (ValidationError ''Cast to string failed'')"
| "cast_string v = Inr (js_String v)"

text \<open>\<open>items.find(item => item.Name === n)\<close>: \<open>Inr None\<close> when nothing matches; reading
  \<open>Name\<close> of a \<open>null\<close> element throws.\<close>

fun find_named :: "string \<Rightarrow> json list \<Rightarrow> error + json option" where
  "find_named n [] = Inr None"
| "find_named n (item # items) =
     (case get_prop item ''Name'' of
        Inl e \<Rightarrow> Inl e
      | Inr v \<Rightarrow> (if v = JStr n then Inr (Some item) else find_named n items))"

definition substring :: "string \<Rightarrow> nat \<Rightarrow> nat \<Rightarrow> string" where
  "substring s a b = take (b - a) (drop a s)"

text \<open>The text handed to \<open>new Date\<close> for a \<open>TransactionDate\<close> such as 20231025143022.\<close>

definition date_text :: "string \<Rightarrow> string" where
  "date_text dateStr =
     substring dateStr 0 4 @ ''-'' @ substring dateStr 4 6 @ ''-'' @ substring dateStr 6 8
       @ ''T'' @ substring dateStr 8 10 @ '':'' @ substring dateStr 10 12 @ '':''
       @ substring dateStr 12 14"

subsection \<open>The callback\<close>

text \<open>What the store does during a request.\<close>

datatype persistence = Healthy | FindFails | SaveFails

fun find_index_of :: "('a \<Rightarrow> bool) \<Rightarrow> 'a list \<Rightarrow> nat option" where
  "find_index_of P [] = None"
| "find_index_of P (x # xs) =
     (if P x then Some 0 else map_option Suc (find_index_of P xs))"

fun all_strings :: "json list \<Rightarrow> string list option" where
  "all_strings [] = Some []"
| "all_strings (JStr s # xs) = map_option ((#) s) (all_strings xs)"
| "all_strings (_ # xs) = None"

text \<open>A member name that the store reads as a query operator.\<close>

fun is_operator :: "string \<Rightarrow> bool" where
  "is_operator [] = False"
| "is_operator (c # cs) = (c = CHR ''$'')"

text \<open>
  \<open>findOne({checkoutRequestId})\<close> with the id as the body gives it: the position of the
  document found, \<open>None\<close> when there is none, or the exception of a filter that cannot be
  cast. A string finds the first transaction with that id, and an array of strings,
  which the store casts to \<open>$in\<close>, the first transaction whose id is one of them. An
  object with no member that is a query operator and no \<open>_id\<close> cannot be cast to a
  string, and the query is rejected. What the store does with any other value (a number,
  a boolean, \<open>null\<close>, a missing id, an array with an element that is not a string, an
  object of query operators or with an \<open>_id\<close>) is not written out; it is the parameter
  \<open>engine\<close>, whose answer is taken when it names a stored document or none.
\<close>

type_synonym query_engine = "json \<Rightarrow> mpesa_transaction list \<Rightarrow> error + nat option"

definition ask_engine :: "query_engine \<Rightarrow> json \<Rightarrow> mpesa_transaction list \<Rightarrow> error + nat option" where
  "ask_engine engine v txs =
     (case engine v txs of
        Inl e \<Rightarrow> Inl e
      | Inr None \<Rightarrow> Inr None
      | Inr (Some i) \<Rightarrow> Inr (if i < length txs then Some i else None))"

definition findByCheckoutRequestId :: "query_engine \<Rightarrow> mpesa_transaction list \<Rightarrow> json
    \<Rightarrow> error + nat option" where
  "findByCheckoutRequestId engine txs v =
     (case v of
        JStr s \<Rightarrow> Inr (find_index_of (\<lambda>t. checkoutRequestId t = s) txs)
      | JArr xs \<Rightarrow>
          (case all_strings xs of
             Some ids \<Rightarrow> Inr (find_index_of (\<lambda>t. checkoutRequestId t \<in> set ids) txs)
           | None \<Rightarrow> ask_engine engine v txs)
      | JObj kvs \<Rightarrow>
          (if list_ex (\<lambda>k. is_operator k \<or> k = ''_id'') (map fst kvs)
           then ask_engine engine v txs
           else Inl (CastError ''Cast to string failed''))
      | _ \<Rightarrow> ask_engine engine v txs)"

text \<open>The lookup of the callback, which also fails when the store does.\<close>

definition lookup :: "query_engine \<Rightarrow> persistence \<Rightarrow> mpesa_transaction list \<Rightarrow> json
    \<Rightarrow> error + nat option" where
  "lookup engine store txs v =
     (if store = FindFails then Inl (Error ''findOne failed'')
      else findByCheckoutRequestId engine txs v)"

text \<open>The success branch's reading of \<open>CallbackMetadata\<close>: the transaction with the
  receipt number and date assigned. \<open>validDate\<close> is the runtime's \<open>Date\<close> parser: whether
  the text is a date. A value that cannot be cast to its path makes \<open>save()\<close> reject in
  the source; here the exception is raised where the value is assigned. Both reach the
  same \<open>catch\<close>, with nothing written.\<close>

definition read_metadata :: "(string \<Rightarrow> bool) \<Rightarrow> json \<Rightarrow> mpesa_transaction
    \<Rightarrow> error + mpesa_transaction" where
  "read_metadata validDate stkCallback transaction =
     (case get_prop stkCallback ''CallbackMetadata'' of
        Inl e \<Rightarrow> Inl e
      | Inr callbackMetadata \<Rightarrow>
          (if \<not> truthy callbackMetadata then Inr transaction
           else case get_prop callbackMetadata ''Item'' of
             Inl e \<Rightarrow> Inl e
           | Inr items \<Rightarrow>
               (if \<not> truthy items then Inr transaction
                else case items of
                  JArr xs \<Rightarrow>
                    (case find_named ''MpesaReceiptNumber'' xs of
                       Inl e \<Rightarrow> Inl e
                     | Inr receiptItem \<Rightarrow>
                    (case find_named ''TransactionDate'' xs of
                       Inl e \<Rightarrow> Inl e
                     | Inr dateItem \<Rightarrow>
                    (case (case receiptItem of
                             None \<Rightarrow> Inr transaction
                           | Some r \<Rightarrow>
                               (case get_prop r ''Value'' of
                                  Inl e \<Rightarrow> Inl e
                                | Inr v \<Rightarrow>
                                    (case cast_string v of
                                       Inl e \<Rightarrow> Inl e
                                     | Inr s \<Rightarrow> Inr (transaction\<lparr>mpesaReceiptNumber := s\<rparr>)))) of
                       Inl e \<Rightarrow> Inl e
                     | Inr transaction1 \<Rightarrow>
                    (case dateItem of
                       None \<Rightarrow> Inr transaction1
                     | Some dt \<Rightarrow>
                         (case get_prop dt ''Value'' of
                            Inl e \<Rightarrow> Inl e
                          | Inr v \<Rightarrow>
                              (case toString v of
                                 Inl e \<Rightarrow> Inl e
                               | Inr dateStr \<Rightarrow>
                                   (if validDate (date_text dateStr)
                                    then Inr (transaction1\<lparr>transactionDate :=
                                                Some (date_text dateStr)\<rparr>)
                                    else Inl (ValidationError ''Cast to date failed''))))))))
                | _ \<Rightarrow> Inl (TypeError ''items.find is not a function''))))"

text \<open>The \<open>try\<close> block of \<open>mpesaCallback\<close>: the message of the acknowledgement, or the
  exception that reaches the \<open>catch\<close>.\<close>

definition callback_try :: "query_engine \<Rightarrow> (string \<Rightarrow> bool) \<Rightarrow> persistence \<Rightarrow> db \<Rightarrow> json
    \<Rightarrow> (error + string) \<times> db" where
  "callback_try engine validDate store d body =
     (case get_prop body ''Body'' of
        Inl e \<Rightarrow> (Inl e, d)
      | Inr Body \<Rightarrow>
     (case get_prop Body ''stkCallback'' of
        Inl e \<Rightarrow> (Inl e, d)
      | Inr stkCallback \<Rightarrow>
     (case get_prop stkCallback ''CheckoutRequestID'' of
        Inl e \<Rightarrow> (Inl e, d)
      | Inr checkoutRequestId' \<Rightarrow>
     (case get_prop stkCallback ''ResultCode'' of
        Inl e \<Rightarrow> (Inl e, d)
      | Inr resultCode' \<Rightarrow>
     (case get_prop stkCallback ''ResultDesc'' of
        Inl e \<Rightarrow> (Inl e, d)
      | Inr resultDesc' \<Rightarrow>
     (case lookup engine store (mpesaTransactions d) checkoutRequestId' of
        Inl e \<Rightarrow> (Inl e, d)
      | Inr None \<Rightarrow> (Inr ''Transaction not found'', d)
      | Inr (Some i) \<Rightarrow>
     (case toString resultCode' of
        Inl e \<Rightarrow> (Inl e, d)
      | Inr code \<Rightarrow>
     (let transaction = (mpesaTransactions d ! i)\<lparr>resultCode := Some code,
            callbackData := Some body\<rparr>
      in case (if resultCode' = JNum 0
               then read_metadata validDate stkCallback (transaction\<lparr>t_status := tx_success\<rparr>)
               else Inr (transaction\<lparr>t_status := tx_failed\<rparr>)) of
           Inl e \<Rightarrow> (Inl e, d)
         | Inr transaction1 \<Rightarrow>
     (case cast_string resultDesc' of
        Inl e \<Rightarrow> (Inl e, d)
      | Inr desc \<Rightarrow>
     (if store = SaveFails then (Inl (Error ''save failed''), d)
      else (Inr ''Callback processed successfully'',
            d\<lparr>mpesaTransactions :=
                (mpesaTransactions d)[i := transaction1\<lparr>resultDesc := desc\<rparr>]\<rparr>)))))))))))"

text \<open>\<open>mpesaCallback\<close>: the HTTP status and the message of the response.\<close>

definition mpesaCallback :: "query_engine \<Rightarrow> (string \<Rightarrow> bool) \<Rightarrow> persistence \<Rightarrow> db \<Rightarrow> json
    \<Rightarrow> (nat \<times> string) \<times> db" where
  "mpesaCallback engine validDate store d body =
     (case callback_try engine validDate store d body of
        (Inr message, d') \<Rightarrow> ((200, message), d')
      | (Inl e, d') \<Rightarrow> ((500, ''Callback processing failed''), d'))"

subsection \<open>The status poll\<close>

text \<open>What \<open>mpesaService.stkQuery\<close> returns: \<open>success: false\<close>, or \<open>success: true\<close> with
  the result code and description.\<close>

datatype stk_query = QueryFailure | QueryResult string string

record status_response =
  r_status :: mpesa_status
  r_transactionId :: "string option"
  r_resultDesc :: "string option"

definition respond :: "mpesa_transaction \<Rightarrow> bool \<Rightarrow> status_response" where
  "respond transaction withDesc =
     \<lparr>r_status = t_status transaction, r_transactionId = mpesaReceiptNumber transaction,
      r_resultDesc = (if withDesc then resultDesc transaction else None)\<rparr>"

text \<open>\<open>lastQuery && (now - lastQuery) < 5000\<close>.\<close>

definition queried_recently :: "jsdate \<Rightarrow> jsdate option \<Rightarrow> bool" where
  "queried_recently now lastQuery =
     (case lastQuery of None \<Rightarrow> False | Some l \<Rightarrow> epoch_ms now - epoch_ms l < 5000)"

definition query_status :: "string \<Rightarrow> mpesa_status" where
  "query_status code =
     (if code = ''0'' then tx_success else if code = ''1032'' then tx_cancelled else tx_failed)"

text \<open>\<open>checkMpesaPaymentStatus\<close>; \<open>q\<close> is the answer \<open>stkQuery\<close> gives if it is asked.
  \<open>stkQuery\<close> catches its own exceptions, so the handler's \<open>catch\<close> is reached only
  when the store fails, which is not modelled here.\<close>

definition checkMpesaPaymentStatus :: "jsdate \<Rightarrow> db \<Rightarrow> string \<Rightarrow> stk_query
    \<Rightarrow> (error + status_response) \<times> db" where
  "checkMpesaPaymentStatus now d checkoutRequestId' q =
     (case find_index_of (\<lambda>t. checkoutRequestId t = checkoutRequestId') (mpesaTransactions d) of
        None \<Rightarrow> (Inl (AppError ''Transaction not found'' 404), d)
      | Some i \<Rightarrow>
          (let transaction = mpesaTransactions d ! i
           in if t_status transaction = tx_success \<or> t_status transaction = tx_failed
              then (Inr (respond transaction True), d)
              else if queried_recently now (lastQueryAt transaction)
              then (Inr (respond transaction False), d)
              else
                (case q of
                   QueryFailure \<Rightarrow> (Inr (respond transaction True), d)
                 | QueryResult code desc \<Rightarrow>
                     (let transaction' = transaction\<lparr>t_status := query_status code,
                            resultCode := Some code, resultDesc := Some desc,
                            lastQueryAt := Some now,
                            retryCount := retryCount transaction + 1\<rparr>
                      in (Inr (respond transaction' True),
                          d\<lparr>mpesaTransactions := (mpesaTransactions d)[i := transaction']\<rparr>)))))"

section \<open>Notions used in the statements\<close>

text \<open>The fields of a product that no stock movement writes.\<close>

definition same_static :: "product \<Rightarrow> product \<Rightarrow> bool" where
  "same_static p p' =
     (name p' = name p \<and> isActive p' = isActive p \<and> sellingPrice p' = sellingPrice p
      \<and> pricingDiscount p' = pricingDiscount p \<and> trackInventory p' = trackInventory p
      \<and> allowBackorder p' = allowBackorder p)"


text \<open>The check \<open>refund\<close> makes on one requested item: the sale has a line for the
  product, and the quantity asked is at most the quantity of the first such line.\<close>

definition within_sold :: "sale_doc \<Rightarrow> refund_request_item \<Rightarrow> bool" where
  "within_sold this refundItem =
     (case find (\<lambda>item. si_product item = rq_productId refundItem) (s_items this) of
        None \<Rightarrow> False
      | Some saleItem \<Rightarrow> rq_quantity refundItem \<le> si_quantity saleItem)"

text \<open>A member of \<open>Body.stkCallback\<close> of a callback body, when it can be read without an
  exception.\<close>

definition callback_field :: "json \<Rightarrow> string \<Rightarrow> json option" where
  "callback_field body k =
     (case get_prop body ''Body'' of
        Inl e \<Rightarrow> None
      | Inr Body \<Rightarrow>
          (case get_prop Body ''stkCallback'' of
             Inl e \<Rightarrow> None
           | Inr stkCallback \<Rightarrow>
               (case get_prop stkCallback k of Inl e \<Rightarrow> None | Inr v \<Rightarrow> Some v)))"

text \<open>The total quantity a sale's items sold of one product.\<close>

definition sold_quantity :: "oid \<Rightarrow> sale_item list \<Rightarrow> int" where
  "sold_quantity pid items =
     sum_list (map si_quantity (filter (\<lambda>item. si_product item = pid) items))"

text \<open>What \<open>refund\<close> records for a requested item, and the exception it throws for one
  that fails its check.\<close>

definition refund_line :: "sale_doc \<Rightarrow> refund_request_item \<Rightarrow> refunded_item" where
  "refund_line this refundItem =
     \<lparr>rf_product = rq_productId refundItem, rf_quantity = rq_quantity refundItem,
      rf_amount =
        (case find (\<lambda>item. si_product item = rq_productId refundItem) (s_items this) of
           None \<Rightarrow> NaN
         | Some saleItem \<Rightarrow>
             jmul (jdiv (si_subtotal saleItem) (of_qty (si_quantity saleItem)))
               (of_qty (rq_quantity refundItem)))\<rparr>"

definition refund_error :: "sale_doc \<Rightarrow> refund_request_item \<Rightarrow> error" where
  "refund_error this refundItem =
     (case find (\<lambda>item. si_product item = rq_productId refundItem) (s_items this) of
        None \<Rightarrow> Error (''Product '' @ show_nat (rq_productId refundItem) @ '' not found in sale'')
      | Some saleItem \<Rightarrow> Error ''Cannot refund more than sold quantity'')"

text \<open>The requested items that name one product, and the ledger's update for one of
  them: a \<open>return\<close> movement with the sale's receipt number.\<close>

definition requested_of :: "oid \<Rightarrow> refund_request_item list \<Rightarrow> refund_request_item list" where
  "requested_of pid items = filter (\<lambda>refundItem. rq_productId refundItem = pid) items"

definition refund_step :: "jsdate \<Rightarrow> string \<Rightarrow> oid \<Rightarrow> string \<Rightarrow> product \<Rightarrow> refund_request_item
    \<Rightarrow> product" where
  "refund_step now reference userId reason p refundItem =
     stockUpdated now p (rq_quantity refundItem) return reference userId
       (Some (''Refund: '' @ reason))"

text \<open>The product with id \<open>pid\<close> after \<open>refund\<close> has restocked \<open>items\<close>.\<close>

definition restocked_product :: "jsdate \<Rightarrow> string \<Rightarrow> oid \<Rightarrow> string \<Rightarrow> refund_request_item list
    \<Rightarrow> oid \<Rightarrow> product \<Rightarrow> product" where
  "restocked_product now reference userId reason items pid p =
     foldl (refund_step now reference userId reason) p (requested_of pid items)"

text \<open>A sale as the store holds it: every item has a quantity of 1 or more and a number as
  subtotal, and the total is a number.\<close>

definition stored_sale :: "sale_doc \<Rightarrow> bool" where
  "stored_sale this =
     (list_all (\<lambda>item. 1 \<le> si_quantity item \<and> si_subtotal item \<noteq> NaN) (s_items this)
      \<and> tot_total (s_totals this) \<noteq> NaN)"

text \<open>The sale document \<open>refund\<close> saves for a request it accepts.\<close>

definition refunded_sale :: "jsdate \<Rightarrow> sale_doc \<Rightarrow> oid \<Rightarrow> refund_request_item list \<Rightarrow> string
    \<Rightarrow> sale_doc" where
  "refunded_sale now this userId items reason =
     (let total = foldl (\<lambda>t refundItem. jadd t (rf_amount (refund_line this refundItem)))
                    (Num 0) items
      in this\<lparr>refundInfo := Some \<lparr>refundedBy = userId, refundedAt = now,
                 refundedItems = map (refund_line this) items, totalRefunded = total,
                 refund_reason = reason\<rparr>,
               s_status := (if jge total (tot_total (s_totals this))
                            then refunded else partial_refund)\<rparr>)"

text \<open>The items of an order that name one product, and the ledger's update for one of
  them on delivery: a \<open>sale\<close> movement with the order number.\<close>

definition items_of :: "oid \<Rightarrow> order_item list \<Rightarrow> order_item list" where
  "items_of pid items = filter (\<lambda>item. oi_product item = pid) items"

definition sale_step :: "jsdate \<Rightarrow> string \<Rightarrow> oid \<Rightarrow> product \<Rightarrow> order_item \<Rightarrow> product" where
  "sale_step now reference userId p item =
     stockUpdated now p (oi_quantity item) sale reference userId (Some ''Order delivered'')"

text \<open>The product with id \<open>pid\<close> after the delivery loop has processed \<open>items\<close>: the
  updates of the items that name it, in order, when it tracks inventory.\<close>

definition delivered_product :: "jsdate \<Rightarrow> string \<Rightarrow> oid \<Rightarrow> order_item list \<Rightarrow> oid \<Rightarrow> product
    \<Rightarrow> product" where
  "delivered_product now reference userId items pid p =
     (if trackInventory p then foldl (sale_step now reference userId) p (items_of pid items)
      else p)"

section \<open>Example data\<close>

definition now0 :: jsdate where
  "now0 = \<lparr>epoch_ms = 1700000000000, fullYear = 2023, month = 10, dayOfMonth = 14\<rparr>"

text \<open>A product with 10 in stock that tracks inventory and does not allow backorder.\<close>

definition widget :: product where
  "widget = \<lparr>name = ''widget'', isActive = True, sellingPrice = Num 100,
     pricingDiscount = Num 0, currentStock = 10, trackInventory = True,
     allowBackorder = False, stockMovements = [], totalSold = 0, totalRevenue = Num 0,
     lastSoldDate = None\<rparr>"

definition db0 :: db where
  "db0 = \<lparr>products = [1 \<mapsto> widget], sales = Map.empty, orders = Map.empty,
     counters = Map.empty, mpesaTransactions = []\<rparr>"

text \<open>The request of the specification's example: quantity 2 at 100, 10 percent discount,
  tax rate 16, sent by a client that has computed the item's subtotal 208.8 (1044 / 5) and
  pays that amount.\<close>

definition example_request :: sale_request where
  "example_request =
     \<lparr>rq_items = [\<lparr>rq_product = 1, rq_qty = 2, rq_unitPrice = Some (Num 100),
         rq_discountAmount = None, rq_discountPercentage = Some (Num 10),
         rq_taxAmount = None, rq_taxRate = Some (Num 16),
         rq_subtotal = Some (Num (1044 / 5))\<rparr>],
      rq_customer = None, rq_paymentMethod = cash, rq_paymentDetails = [],
      rq_totalPaid = Some (Num (1044 / 5))\<rparr>"

text \<open>An order for 5 widgets, with number \<open>ORD231100001\<close>, in a given status.\<close>

definition example_order :: "order_status \<Rightarrow> order_doc" where
  "example_order st =
     \<lparr>o_id = 20, orderNumber = ''ORD231100001'', o_customer = None,
      o_items = [\<lparr>oi_product = 1, oi_productName = ''widget'', oi_quantity = 5,
                  oi_unitPrice = Num 100\<rparr>],
      o_status = st, statusHistory = [], assignedTo = Some 8, createdBy = 7,
      o_paymentStatus = pay_pending, actualDeliveryDate = None, cancelledBy = None,
      cancelledAt = None, customerNotified = None, packingCompleted = None\<rparr>"

definition db_order :: "order_status \<Rightarrow> db" where
  "db_order st = db0\<lparr>orders := [20 \<mapsto> example_order st]\<rparr>"

text \<open>A transaction the gateway has confirmed, with receipt number \<open>ABC123\<close>.\<close>

definition paid_transaction :: mpesa_transaction where
  "paid_transaction =
     \<lparr>checkoutRequestId = ''ws_CO_1'', merchantRequestId = ''m-1'',
      phoneNumber = ''254700000000'', amount = 200, t_status = tx_success,
      mpesaReceiptNumber = Some ''ABC123'', transactionDate = Some ''2023-10-25T14:30:22'',
      resultCode = Some ''0'', resultDesc = Some ''ok'', callbackData = None, t_sale = None,
      retryCount = 0, lastQueryAt = None\<rparr>"

definition db_paid :: db where
  "db_paid = db0\<lparr>mpesaTransactions := [paid_transaction]\<rparr>"

text \<open>The example request paid by M-Pesa with that receipt number as transaction id.\<close>

definition mpesa_request :: sale_request where
  "mpesa_request =
     example_request\<lparr>rq_paymentMethod := mpesa,
       rq_paymentDetails := [\<lparr>pd_method = mpesa, pd_amount = Num 200, pd_reference = None,
                               pd_transactionId = Some ''ABC123''\<rparr>]\<rparr>"

text \<open>A product like \<open>widget\<close> that does not track inventory, and a request for 3.\<close>

definition db_untracked :: db where
  "db_untracked = db0\<lparr>products := [1 \<mapsto> widget\<lparr>trackInventory := False\<rparr>]\<rparr>"

definition request3 :: sale_request where
  "request3 =
     \<lparr>rq_items = [\<lparr>rq_product = 1, rq_qty = 3, rq_unitPrice = Some (Num 100),
         rq_discountAmount = None, rq_discountPercentage = None,
         rq_taxAmount = None, rq_taxRate = None, rq_subtotal = Some (Num 300)\<rparr>],
      rq_customer = None, rq_paymentMethod = cash, rq_paymentDetails = [],
      rq_totalPaid = Some (Num 300)\<rparr>"

text \<open>A completed sale of 3 widgets at 100 as \<open>createSale\<close> stores it, with number 50,
  after which 7 widgets are in stock.\<close>

definition sold_sale :: sale_doc where
  "sold_sale =
     \<lparr>s_id = 50, receiptNumber = ''RCP23111400001'',
      s_items = [\<lparr>si_product = 1, si_productName = ''widget'', si_quantity = 3,
                  si_unitPrice = Num 100, si_discountAmount = Num 0,
                  si_discountPercentage = Num 0, si_taxAmount = Num 0,
                  si_subtotal = Num 300\<rparr>],
      s_customer = None, s_paymentMethod = cash, s_paymentDetails = [],
      s_totalPaid = Num 300,
      s_totals = \<lparr>tot_subtotal = Num 300, tot_discount = Num 0, tot_tax = Num 0,
                   tot_total = Num 0\<rparr>,
      seller = 7, s_status = completed, voidInfo = None, refundInfo = None\<rparr>"

definition db_sold :: db where
  "db_sold = db0\<lparr>products := [1 \<mapsto> widget\<lparr>currentStock := 7\<rparr>],
                  sales := [50 \<mapsto> sold_sale]\<rparr>"

definition refund_of :: "int \<Rightarrow> refund_request_item" where
  "refund_of n = \<lparr>rq_productId = 1, rq_quantity = n\<rparr>"

text \<open>A callback for the confirmed transaction that reports the result code 1032, and a
  transaction in state \<open>cancelled\<close>.\<close>

definition late_callback :: json where
  "late_callback =
     JObj [(''Body'', JObj [(''stkCallback'',
       JObj [(''CheckoutRequestID'', JStr ''ws_CO_1''), (''ResultCode'', JNum 1032),
             (''ResultDesc'', JStr ''Request cancelled by user'')])])]"

definition db_cancelled :: db where
  "db_cancelled =
     db0\<lparr>mpesaTransactions :=
           [paid_transaction\<lparr>t_status := tx_cancelled, mpesaReceiptNumber := None,
              resultCode := Some ''1032''\<rparr>]\<rparr>"


text \<open>The late callback with its id sent as a one-element array.\<close>

definition array_callback :: json where
  "array_callback =
     JObj [(''Body'', JObj [(''stkCallback'',
       JObj [(''CheckoutRequestID'', JArr [JStr ''ws_CO_1'']), (''ResultCode'', JNum 1032),
             (''ResultDesc'', JStr ''Request cancelled by user'')])])]"

text \<open>A query engine that rejects every filter it is asked about.\<close>

definition no_engine :: query_engine where
  "no_engine v txs = Inl (CastError ''Cast to string failed'')"

text \<open>A sale with two lines of widgets, 1 and then 3.\<close>

definition two_line_sale :: sale_doc where
  "two_line_sale =
     sold_sale\<lparr>s_items := [\<lparr>si_product = 1, si_productName = ''widget'', si_quantity = 1,
                              si_unitPrice = Num 100, si_discountAmount = Num 0,
                              si_discountPercentage = Num 0, si_taxAmount = Num 0,
                              si_subtotal = Num 100\<rparr>,
                             \<lparr>si_product = 1, si_productName = ''widget'', si_quantity = 3,
                              si_unitPrice = Num 100, si_discountAmount = Num 0,
                              si_discountPercentage = Num 0, si_taxAmount = Num 0,
                              si_subtotal = Num 300\<rparr>]\<rparr>"

section \<open>Evaluation lemmas\<close>

lemma show_nat_numeral:
  "show_nat (numeral k) =
     (if numeral k < (10::nat) then [digit (numeral k)]
      else show_nat (numeral k div 10) @ [digit (numeral k)])"
  by (rule show_nat.simps)

lemma show_nat_small: "show_nat 0 = ''0''" "show_nat (Suc 0) = ''1''"
  by (simp_all add: show_nat.simps digit_def)

lemmas text_eval = show_int_def show_nat_numeral show_nat_small digit_def padStart0_def
  slice_last_def receipt_text_def

lemmas stock_eval = updateStock_def stockUpdated_def product_save_def effectivePrice_def
  of_qty_def

lemmas totals_eval = calculate_totals_def item_computed_def itemTax_def taxableAmount_def
  itemDiscount_def itemSubtotal_def item_tax_rate_def of_qty_def

lemmas counter_eval = getNextSequence_def counter_create_def no_options_def or_default_def
  Let_def

section \<open>The inventory ledger\<close>

lemma slice_last_short: "length xs \<le> n \<Longrightarrow> slice_last n xs = xs"
  by (simp add: slice_last_def)

lemma stockUpdated_currentStock:
  "currentStock (stockUpdated now p q type r u reason) = proposedStock type (currentStock p) q"
  by (simp add: stockUpdated_def Let_def)

lemma stockUpdated_movements:
  "stockMovements (stockUpdated now p q type r u reason) =
     slice_last 100 (stockMovements p @
       [\<lparr>sm_type = type, sm_quantity = q, sm_previousStock = currentStock p,
         sm_newStock = proposedStock type (currentStock p) q, sm_reference = r,
         sm_reason = reason, sm_performedBy = u, sm_timestamp = now\<rparr>])"
  by (simp add: stockUpdated_def Let_def slice_last_short)

text \<open>
  C2. The claim lets every call succeed that does not raise the insufficient-stock
  error. With backorder allowed and a negative proposed stock the guard of
  \<open>updateStock\<close> is passed, and \<open>save()\<close> then rejects the document because the schema
  validates \<open>inventory.currentStock\<close> with \<open>min: 0\<close>: the call throws and nothing is
  written.
\<close>

theorem updateStock_backorder_rejected:
  assumes "allowBackorder p" and "proposedStock type (currentStock p) q < 0"
  shows "updateStock now p q type r u reason = Inl (ValidationError ''Stock cannot be negative'')"
  using assms by (simp add: updateStock_def product_save_def stockUpdated_currentStock)

theorem updateStock_backorder_rejected_witness:
  "updateStock now0 (widget\<lparr>currentStock := 0, allowBackorder := True\<rparr>) 1 sale ''RCP2311140001''
     7 None = Inl (ValidationError ''Stock cannot be negative'')"
  by (rule updateStock_backorder_rejected) (simp_all add: widget_def)

section \<open>The sequence service\<close>

text \<open>
  C4. The call that creates the counter returns the new counter's \<open>seq\<close> as it is, which
  is the schema's default 0 when the options give none: it neither resets to 1 nor
  increments, and the returned value is below 1.
\<close>

theorem getNextSequence_first_call:
  assumes "cs counterId = None"
  shows "fst (getNextSequence now cs counterId no_options) = 0"
  using assms by (simp add: counter_eval)

theorem getNextSequence_first_call_witness:
  "fst (getNextSequence now0 Map.empty ''receipt'' no_options) = 0"
  by (rule getNextSequence_first_call) simp

section \<open>Sale totals\<close>

lemma sum_items_NaN: "sum_items f NaN items = NaN"
  by (induction items) simp_all

lemma sum_items_itemTax: "items \<noteq> [] \<Longrightarrow> sum_items itemTax acc items = NaN"
  by (cases items) (simp_all add: itemTax_def item_tax_rate_def sum_items_NaN)

lemma item_computed_keeps:
  "si_taxAmount (item_computed item) = si_taxAmount item"
  "si_subtotal (item_computed item) = si_subtotal item"
  by (simp_all add: item_computed_def itemTax_def item_tax_rate_def)

text \<open>
  C5. For the example of the claim (quantity 2, unit price 100, discount 10 percent, tax
  rate 16), sent with the item subtotal 208.8 and the payment of 208.8 that validation
  requires, the sale that \<open>createSale\<close> stores has subtotal 200 and discount 20, but its
  tax is 0 and its total is 0, not 28.8 and 208.8, and the item's tax amount is 0. The
  hook reads \<open>item.tax.rate\<close>, which the schema does not declare, every value computed
  from it is \<open>NaN\<close>, and a \<open>NaN\<close> assigned to a number is refused: the totals keep the
  0 they were created with, and the item's subtotal is the one the client sent.
\<close>

theorem createSale_example_totals:
  "(case fst (createSale now0 db0 example_request 7 50 True) of
      Inl e \<Rightarrow> False
    | Inr saleDoc \<Rightarrow>
        s_totals saleDoc = \<lparr>tot_subtotal = Num 200, tot_discount = Num 20, tot_tax = Num 0,
                             tot_total = Num 0\<rparr>
        \<and> map si_taxAmount (s_items saleDoc) = [Num 0]
        \<and> map si_subtotal (s_items saleDoc) = [Num (1044 / 5)])"
  by (simp add: createSale_def db0_def example_request_def widget_def now0_def mpesa_check_def
      sale_valid_def item_valid_def
      counter_eval totals_eval stock_eval text_eval)

section \<open>The order state machine\<close>

lemma updateStatus_status [simp]:
  "o_status (updateStatus now this newStatus userId notes location) = newStatus"
  by (cases newStatus) (simp_all add: updateStatus_def status_hook_def Let_def)

lemma updateStatus_history:
  assumes "newStatus \<noteq> o_status this"
  shows "statusHistory (updateStatus now this newStatus userId notes location) =
           statusHistory this @
             [\<lparr>se_status = newStatus, se_timestamp = now, se_updatedBy = Some userId,
               se_notes = notes, se_latitude = cast_latitude location,
               se_longitude = cast_longitude location\<rparr>,
              \<lparr>se_status = newStatus, se_timestamp = now,
               se_updatedBy = Some (assigned_or_creator this),
               se_notes = None, se_latitude = None, se_longitude = None\<rparr>]"
  using assms
  by (cases newStatus) (simp_all add: updateStatus_def status_hook_def assigned_or_creator_def Let_def)

lemma updateStatus_items:
  "o_items (updateStatus now this newStatus userId notes location) = o_items this"
  "orderNumber (updateStatus now this newStatus userId notes location) = orderNumber this"
  by (cases newStatus; simp add: updateStatus_def status_hook_def Let_def)+

lemma validTransitions_not_self: "st \<notin> set (validTransitions st)"
  by (cases st) simp_all

lemma updateOrderStatus_orders:
  assumes "orders d orderId = Some order"
    and "status \<in> set (validTransitions (o_status order))"
  shows "orders (snd (updateOrderStatus now d orderId status notes location userId)) =
           (orders d)(orderId \<mapsto> updateStatus now order status userId notes location)"
  using assms
  by (auto simp: updateOrderStatus_def Let_def split: prod.splits option.splits)

lemma updateOrderStatus_rejected:
  assumes "orders d orderId = Some order"
    and "status \<notin> set (validTransitions (o_status order))"
  shows "updateOrderStatus now d orderId status notes location userId =
           (AppError (''Cannot change status from '' @ status_name (o_status order)
              @ '' to '' @ status_name status) 400, d)"
  using assms by (simp add: updateOrderStatus_def)

lemma validTransitions_table:
  "new \<in> set (validTransitions cur) \<longleftrightarrow>
     (cur, new) \<in> {(Pending, Confirmed), (Pending, Cancelled),
                    (Confirmed, Processing), (Confirmed, Cancelled),
                    (Processing, Ready), (Processing, Cancelled),
                    (Ready, OutForDelivery), (Ready, Delivered), (Ready, Cancelled),
                    (OutForDelivery, Delivered), (OutForDelivery, Failed),
                    (Failed, OutForDelivery), (Failed, Cancelled)}"
  by (cases cur; cases new; simp)

lemma updateStock_cases:
  "updateStock now p q type r u reason =
     (if proposedStock type (currentStock p) q < 0
      then Inl (if allowBackorder p then ValidationError ''Stock cannot be negative''
                else Error ''Insufficient stock'')
      else Inr (stockUpdated now p q type r u reason))"
  by (simp add: updateStock_def product_save_def stockUpdated_currentStock)

lemma updateStock_error:
  assumes "updateStock now p q type r u reason = Inl e"
  shows "e = Error ''Insufficient stock'' \<or> e = ValidationError ''Stock cannot be negative''"
  using assms by (auto simp: updateStock_cases split: if_splits)

lemma deliver_items_error:
  assumes "fst (deliver_items now ps items r u) = Some e"
  shows "e = Error ''Insufficient stock'' \<or> e = ValidationError ''Stock cannot be negative''"
  using assms
proof (induction items arbitrary: ps)
  case Nil
  then show ?case by simp
next
  case (Cons item items)
  then show ?case
    by (auto split: option.splits if_splits sum.splits dest: updateStock_error)
qed

lemma updateOrderStatus_response:
  assumes "orders d orderId = Some order"
    and "status \<in> set (validTransitions (o_status order))"
  shows "fst (updateOrderStatus now d orderId status notes location userId) =
           (if status = Delivered
            then (case fst (deliver_items now (products d) (o_items order) (orderNumber order)
                              userId) of
                    None \<Rightarrow> ReferenceError ''settings is not defined''
                  | Some e \<Rightarrow> e)
            else ReferenceError ''settings is not defined'')"
  using assms
  by (auto simp: updateOrderStatus_def Let_def updateStatus_items split: prod.splits option.splits)

text \<open>
  C7. The claim has every permitted transition succeed and append a \<open>statusHistory\<close>
  entry. For a stored order and a requested status that the table permits,
  \<open>updateOrderStatus\<close> stores the order with the requested status and with two new history
  entries, the one \<open>updateStatus\<close> pushes (of whose location a text is dropped) and the
  one the pre-save hook pushes, and then ends in an exception: the \<open>ReferenceError\<close> of
  the undeclared \<open>settings\<close>, or, for \<open>delivered\<close>, an exception of the stock loop
  before it. No permitted request is answered with success.
\<close>

theorem updateOrderStatus_permitted_throws:
  assumes "orders d orderId = Some order"
    and "status \<in> set (validTransitions (o_status order))"
  shows "fst (updateOrderStatus now d orderId status notes location userId)
           \<in> {ReferenceError ''settings is not defined'', Error ''Insufficient stock'',
               ValidationError ''Stock cannot be negative''}
         \<and> (status = Delivered
            \<or> fst (updateOrderStatus now d orderId status notes location userId)
                = ReferenceError ''settings is not defined'')
         \<and> map_option o_status
              (orders (snd (updateOrderStatus now d orderId status notes location userId))
                 orderId) = Some status
         \<and> map_option statusHistory
              (orders (snd (updateOrderStatus now d orderId status notes location userId))
                 orderId) =
              Some (statusHistory order @
                [\<lparr>se_status = status, se_timestamp = now, se_updatedBy = Some userId,
                  se_notes = notes, se_latitude = cast_latitude location,
                  se_longitude = cast_longitude location\<rparr>,
                 \<lparr>se_status = status, se_timestamp = now,
                  se_updatedBy = Some (assigned_or_creator order),
                  se_notes = None, se_latitude = None, se_longitude = None\<rparr>])"
proof -
  have neq: "status \<noteq> o_status order"
    using assms(2) validTransitions_not_self by metis
  have resp: "fst (updateOrderStatus now d orderId status notes location userId)
           \<in> {ReferenceError ''settings is not defined'', Error ''Insufficient stock'',
               ValidationError ''Stock cannot be negative''}"
    using deliver_items_error [of now "products d" "o_items order" "orderNumber order" userId]
    by (auto simp: updateOrderStatus_response [OF assms] split: option.splits)
  have other: "status = Delivered
            \<or> fst (updateOrderStatus now d orderId status notes location userId)
                = ReferenceError ''settings is not defined''"
    by (simp add: updateOrderStatus_response [OF assms])
  show ?thesis
    using resp other
    by (simp add: updateOrderStatus_orders [OF assms] updateStatus_history [OF neq])
qed

theorem updateOrderStatus_permitted_throws_witness:
  "fst (updateOrderStatus now0 (db_order Pending) 20 Confirmed None
          (LocationText ''Nairobi'') 7) = ReferenceError ''settings is not defined''
   \<and> map_option o_status
        (orders (snd (updateOrderStatus now0 (db_order Pending) 20 Confirmed None
                        (LocationText ''Nairobi'') 7)) 20)
       = Some Confirmed
   \<and> map_option statusHistory
        (orders (snd (updateOrderStatus now0 (db_order Pending) 20 Confirmed None
                        (LocationText ''Nairobi'') 7)) 20)
       = Some [\<lparr>se_status = Confirmed, se_timestamp = now0, se_updatedBy = Some 7,
                se_notes = None, se_latitude = None, se_longitude = None\<rparr>,
               \<lparr>se_status = Confirmed, se_timestamp = now0, se_updatedBy = Some 8,
                se_notes = None, se_latitude = None, se_longitude = None\<rparr>]"
proof -
  have o: "orders (db_order Pending) 20 = Some (example_order Pending)"
    by (simp add: db_order_def)
  have st: "o_status (example_order Pending) = Pending"
    by (simp add: example_order_def)
  have tr: "Confirmed \<in> set (validTransitions (o_status (example_order Pending)))"
    by (simp add: st)
  have h: "statusHistory (example_order Pending) = []"
    by (simp add: example_order_def)
  have a: "assigned_or_creator (example_order Pending) = 8"
    by (simp add: example_order_def assigned_or_creator_def or_default_def)
  show ?thesis
    using updateOrderStatus_permitted_throws [OF o tr, of now0 None "LocationText ''Nairobi''" 7]
    by (simp add: h a)
qed

section \<open>Orders and stock\<close>

lemma same_static_refl [simp]: "same_static p p"
  by (simp add: same_static_def)

lemma same_static_trans: "same_static p q \<Longrightarrow> same_static q r \<Longrightarrow> same_static p r"
  by (simp add: same_static_def)

lemma stockUpdated_static: "same_static p (stockUpdated now p q type r u reason)"
  by (simp add: stockUpdated_def same_static_def Let_def)

lemma sale_step_track [simp]:
  "trackInventory (sale_step now r u p item) = trackInventory p"
  by (simp add: sale_step_def stockUpdated_def Let_def)




lemma delivered_product_Nil [simp]: "delivered_product now r u [] pid p = p"
  by (simp add: delivered_product_def items_of_def)



lemma delivered_product_Nil_map [simp]:
  "map_option (delivered_product now r u [] pid) x = x"
  by (cases x) simp_all










section \<open>Sales paid by M-Pesa\<close>

text \<open>
  C9. A sale request with payment method \<open>mpesa\<close> and a transaction id that matches a
  successful transaction is not accepted: \<open>createSale\<close> ends in a \<open>ReferenceError\<close> at
  the statement that should set the back-reference, no sale is created and the database,
  the transaction's \<open>sale\<close> field included, is unchanged.
\<close>

theorem createSale_mpesa_never_links:
  assumes "validate_items (products d) (rq_items req) = Inr items"
    and "rq_paymentMethod req = mpesa"
    and "first_transactionId (rq_paymentDetails req) = Some tid"
    and "find (\<lambda>t. mpesaReceiptNumber t = Some tid \<and> t_status t = tx_success)
           (mpesaTransactions d) = Some t"
  shows "createSale now d req userId newId valid =
           (Inl (ReferenceError ''Cannot access sale before initialization''), d)"
  using assms by (simp add: createSale_def mpesa_check_def)

theorem createSale_mpesa_never_links_witness:
  "createSale now0 db_paid mpesa_request 7 50 True =
     (Inl (ReferenceError ''Cannot access sale before initialization''), db_paid)
   \<and> map t_sale (mpesaTransactions db_paid) = [None]"
proof -
  have v: "validate_items (products db_paid) (rq_items mpesa_request) =
             Inr [\<lparr>si_product = 1, si_productName = ''widget'', si_quantity = 2,
                   si_unitPrice = Num 100, si_discountAmount = Num 0,
                   si_discountPercentage = Num 10, si_taxAmount = Num 0,
                   si_subtotal = Num (1044 / 5)\<rparr>]"
    by (simp add: db_paid_def db0_def mpesa_request_def example_request_def widget_def
        or_default_def)
  have m: "rq_paymentMethod mpesa_request = mpesa"
    by (simp add: mpesa_request_def)
  have f: "first_transactionId (rq_paymentDetails mpesa_request) = Some ''ABC123''"
    by (simp add: mpesa_request_def)
  have t: "find (\<lambda>t. mpesaReceiptNumber t = Some ''ABC123'' \<and> t_status t = tx_success)
             (mpesaTransactions db_paid) = Some paid_transaction"
    by (simp add: db_paid_def paid_transaction_def)
  show ?thesis
    using createSale_mpesa_never_links [OF v m f t, of now0 7 50 True]
    by (simp add: db_paid_def paid_transaction_def)
qed

section \<open>Voiding a sale\<close>

text \<open>
  C6. A product with 10 in stock that does not track inventory: the sale of 3 leaves the
  stock at 10, because \<open>createSale\<close> skips products that do not track inventory, and
  voiding the sale, which has no such guard, adds 3: the stock is 13, not the pre-sale 10.
\<close>

theorem void_untracked_inflates_stock:
  "(case createSale now0 db_untracked request3 7 50 True of
      (Inl e, d1) \<Rightarrow> False
    | (Inr saleDoc, d1) \<Rightarrow>
        map_option currentStock (products d1 1) = Some 10
        \<and> (case void_sale now0 d1 saleDoc 7 ''wrong item'' of
             (Inl e, d2) \<Rightarrow> False
           | (Inr saleDoc', d2) \<Rightarrow>
               s_status saleDoc' = voided
               \<and> map_option currentStock (products d2 1) = Some 13
               \<and> map_option (map sm_type o stockMovements) (products d2 1) = Some [return]))"
  by (simp add: createSale_def db_untracked_def db0_def request3_def widget_def now0_def
      mpesa_check_def sale_valid_def item_valid_def void_sale_def restoreStock_def
      counter_eval totals_eval stock_eval text_eval)

section \<open>Refunds\<close>

lemma restoreStock_cases:
  "restoreStock now ps pid q r u reason =
     (case ps pid of
        None \<Rightarrow> Inr ps
      | Some p \<Rightarrow>
          (if currentStock p + q < 0
           then Inl (if allowBackorder p then ValidationError ''Stock cannot be negative''
                     else Error ''Insufficient stock'')
           else Inr (ps(pid \<mapsto> stockUpdated now p q return r u (Some reason)))))"
  by (simp add: restoreStock_def updateStock_cases split: option.splits)

lemma refund_step_fields:
  "currentStock (refund_step now r u reason p refundItem) = currentStock p + rq_quantity refundItem"
  "totalSold (refund_step now r u reason p refundItem) = totalSold p"
  "same_static p (refund_step now r u reason p refundItem)"
  "stockMovements (refund_step now r u reason p refundItem) =
     slice_last 100 (stockMovements p @
       [\<lparr>sm_type = return, sm_quantity = rq_quantity refundItem,
         sm_previousStock = currentStock p,
         sm_newStock = currentStock p + rq_quantity refundItem, sm_reference = r,
         sm_reason = Some (''Refund: '' @ reason), sm_performedBy = u, sm_timestamp = now\<rparr>])"
  by (simp_all add: refund_step_def stockUpdated_def same_static_def Let_def slice_last_short)

lemma restocked_product_Nil [simp]: "restocked_product now r u reason [] pid p = p"
  by (simp add: restocked_product_def requested_of_def)

lemma restocked_product_Nil_map [simp]:
  "map_option (restocked_product now r u reason [] pid) x = x"
  by (cases x) simp_all

lemma restocked_product_Cons:
  "restocked_product now r u reason (refundItem # items) pid p =
     (if rq_productId refundItem = pid
      then restocked_product now r u reason items pid (refund_step now r u reason p refundItem)
      else restocked_product now r u reason items pid p)"
  by (simp add: restocked_product_def requested_of_def)

lemma restocked_product_other:
  "rq_productId refundItem \<noteq> pid \<Longrightarrow>
     restocked_product now r u reason (refundItem # items) pid
       = restocked_product now r u reason items pid"
  by (rule ext) (simp add: restocked_product_Cons)

lemma restocked_product_stock:
  "currentStock (restocked_product now r u reason items pid p) =
     currentStock p + sum_list (map rq_quantity (requested_of pid items))"
proof (induction items arbitrary: p)
  case Nil
  show ?case by (simp add: requested_of_def)
next
  case (Cons refundItem items)
  show ?case
    using Cons.IH [of "refund_step now r u reason p refundItem"] Cons.IH [of p]
    by (simp add: restocked_product_Cons refund_step_fields(1) requested_of_def)
qed

text \<open>The loop of \<open>refund\<close>: it accepts the items up to the first that fails the check,
  restocks each of them, and returns the lines and the sum for a request it accepts in
  full.\<close>

lemma refund_items_outcome:
  assumes "\<forall>pid p. ps pid = Some p \<longrightarrow> 0 \<le> currentStock p"
    and "\<forall>refundItem\<in>set items. 0 \<le> rq_quantity refundItem"
  shows "fst (refund_items now ps this items u reason acc) =
           (if list_all (within_sold this) items
            then Inr (fst acc @ map (refund_line this) items,
                      foldl (\<lambda>t refundItem. jadd t (rf_amount (refund_line this refundItem)))
                        (snd acc) items)
            else Inl (refund_error this
                        (items ! length (takeWhile (within_sold this) items))))
         \<and> (\<forall>pid. snd (refund_items now ps this items u reason acc) pid =
               map_option
                 (restocked_product now (receiptNumber this) u reason
                    (takeWhile (within_sold this) items) pid)
                 (ps pid))"
  using assms
proof (induction items arbitrary: ps acc)
  case Nil
  show ?case by (simp add: option.map_ident)
next
  case (Cons refundItem items)
  let ?pid0 = "rq_productId refundItem"
  let ?r = "receiptNumber this"
  show ?case
  proof (cases "within_sold this refundItem")
    case False
    have stop: "refund_items now ps this (refundItem # items) u reason acc =
                  (Inl (refund_error this refundItem), ps)"
      using False
      by (auto simp: within_sold_def refund_error_def split: option.splits)
    show ?thesis
      unfolding stop using False by (simp add: option.map_ident)
  next
    case True
    then obtain saleItem where
      found: "find (\<lambda>item. si_product item = ?pid0) (s_items this) = Some saleItem"
      and le: "rq_quantity refundItem \<le> si_quantity saleItem"
      by (auto simp: within_sold_def split: option.splits)
    let ?acc' = "(fst acc @ [refund_line this refundItem],
                  jadd (snd acc) (rf_amount (refund_line this refundItem)))"
    have q0: "0 \<le> rq_quantity refundItem" using Cons.prems(2) by simp
    have rest_q: "\<forall>refundItem\<in>set items. 0 \<le> rq_quantity refundItem"
      using Cons.prems(2) by simp
    have advance: ?thesis
      if step: "refund_items now ps this (refundItem # items) u reason acc =
                  refund_items now qs this items u reason ?acc'"
        and nonneg: "\<forall>pid p. qs pid = Some p \<longrightarrow> 0 \<le> currentStock p"
        and same: "\<And>its pid.
             map_option (restocked_product now ?r u reason its pid) (qs pid)
             = map_option (restocked_product now ?r u reason (refundItem # its) pid) (ps pid)"
      for qs
    proof -
      note ih = Cons.IH [OF nonneg rest_q, of ?acc']
      have a: "fst (refund_items now ps this (refundItem # items) u reason acc) =
           (if list_all (within_sold this) (refundItem # items)
            then Inr (fst acc @ map (refund_line this) (refundItem # items),
                      foldl (\<lambda>t refundItem. jadd t (rf_amount (refund_line this refundItem)))
                        (snd acc) (refundItem # items))
            else Inl (refund_error this
                        ((refundItem # items)
                           ! length (takeWhile (within_sold this) (refundItem # items)))))"
        unfolding step ih [THEN conjunct1] using True by simp
      have b: "\<forall>pid. snd (refund_items now ps this (refundItem # items) u reason acc) pid =
               map_option
                 (restocked_product now ?r u reason
                    (takeWhile (within_sold this) (refundItem # items)) pid)
                 (ps pid)"
      proof
        fix pid
        show "snd (refund_items now ps this (refundItem # items) u reason acc) pid =
               map_option
                 (restocked_product now ?r u reason
                    (takeWhile (within_sold this) (refundItem # items)) pid)
                 (ps pid)"
          unfolding step ih [THEN conjunct2, rule_format, of pid]
          using True same [of "takeWhile (within_sold this) items" pid] by simp
      qed
      show ?thesis using a b by (rule conjI)
    qed
    show ?thesis
    proof (cases "ps ?pid0")
      case None
      show ?thesis
      proof (rule advance [of ps])
        show "refund_items now ps this (refundItem # items) u reason acc =
                refund_items now ps this items u reason ?acc'"
          using found le None
          by (simp add: restoreStock_cases refund_line_def Let_def)
      next
        show "\<forall>pid p. ps pid = Some p \<longrightarrow> 0 \<le> currentStock p" by (rule Cons.prems(1))
      next
        fix its pid
        show "map_option (restocked_product now ?r u reason its pid) (ps pid)
             = map_option (restocked_product now ?r u reason (refundItem # its) pid) (ps pid)"
          using None by (cases "pid = ?pid0") (simp_all add: restocked_product_other)
      qed
    next
      case (Some p)
      have p0: "0 \<le> currentStock p" using Cons.prems(1) Some by blast
      let ?p' = "refund_step now ?r u reason p refundItem"
      show ?thesis
      proof (rule advance [of "ps(?pid0 \<mapsto> ?p')"])
        show "refund_items now ps this (refundItem # items) u reason acc =
                refund_items now (ps(?pid0 \<mapsto> ?p')) this items u reason ?acc'"
          using found le Some p0 q0
          by (simp add: restoreStock_cases refund_line_def refund_step_def Let_def)
      next
        show "\<forall>pid q. (ps(?pid0 \<mapsto> ?p')) pid = Some q \<longrightarrow> 0 \<le> currentStock q"
          using Cons.prems(1) p0 q0 by (auto simp: refund_step_fields(1))
      next
        fix its pid
        show "map_option (restocked_product now ?r u reason its pid) ((ps(?pid0 \<mapsto> ?p')) pid)
             = map_option (restocked_product now ?r u reason (refundItem # its) pid) (ps pid)"
          using Some
          by (cases "pid = ?pid0") (simp_all add: restocked_product_other restocked_product_Cons)
      qed
    qed
  qed
qed

lemma refund_equation:
  assumes "\<forall>pid p. products d pid = Some p \<longrightarrow> 0 \<le> currentStock p"
    and "\<forall>refundItem\<in>set items. 0 \<le> rq_quantity refundItem"
    and "s_status this \<noteq> voided"
  shows "refund now d this userId items reason =
           (if list_all (within_sold this) items
            then (Inr (refunded_sale now this userId items reason),
                  d\<lparr>products := (\<lambda>pid. map_option
                         (restocked_product now (receiptNumber this) userId reason
                            (takeWhile (within_sold this) items) pid) (products d pid)),
                    sales := (sales d)(s_id this \<mapsto>
                                refunded_sale now this userId items reason)\<rparr>)
            else (Inl (refund_error this
                         (items ! length (takeWhile (within_sold this) items))),
                  d\<lparr>products := (\<lambda>pid. map_option
                         (restocked_product now (receiptNumber this) userId reason
                            (takeWhile (within_sold this) items) pid) (products d pid))\<rparr>))"
proof -
  let ?R = "refund_items now (products d) this items userId reason ([], Num 0)"
  note out = refund_items_outcome [OF assms(1,2), of now this userId reason "([], Num 0)"]
  have ps: "snd ?R = (\<lambda>pid. map_option
                         (restocked_product now (receiptNumber this) userId reason
                            (takeWhile (within_sold this) items) pid) (products d pid))"
    by (rule ext) (rule out [THEN conjunct2, rule_format])
  obtain a b where R: "?R = (a, b)" by (cases ?R)
  have b: "b = (\<lambda>pid. map_option
                         (restocked_product now (receiptNumber this) userId reason
                            (takeWhile (within_sold this) items) pid) (products d pid))"
    using ps by (simp add: R)
  show ?thesis
  proof (cases "list_all (within_sold this) items")
    case True
    have a: "a = Inr (map (refund_line this) items,
                        foldl (\<lambda>t refundItem. jadd t (rf_amount (refund_line this refundItem)))
                          (Num 0) items)"
      using out [THEN conjunct1] True by (simp add: R)
    show ?thesis
      unfolding refund_def R
      using assms(3) True by (simp add: a b [symmetric] refunded_sale_def Let_def)
  next
    case False
    have a: "a = Inl (refund_error this
                         (items ! length (takeWhile (within_sold this) items)))"
      using out [THEN conjunct1] False by (simp add: R)
    show ?thesis
      unfolding refund_def R
      using assms(3) False by (simp add: a b [symmetric])
  qed
qed

lemma refunded_sale_fields:
  "s_items (refunded_sale now this userId items reason) = s_items this"
  "s_totals (refunded_sale now this userId items reason) = s_totals this"
  "s_status (refunded_sale now this userId items reason) \<noteq> voided"
  "receiptNumber (refunded_sale now this userId items reason) = receiptNumber this"
  "map_option refundedItems (refundInfo (refunded_sale now this userId items reason))
     = Some (map (refund_line this) items)"
  by (simp_all add: refunded_sale_def Let_def)

lemma within_sold_refunded:
  "within_sold (refunded_sale now this userId items reason) = within_sold this"
  by (rule ext) (simp add: within_sold_def refunded_sale_fields(1))

text \<open>
  C3, the claim as stated fails. Of the sale of 3 widgets, 2 are refunded twice: both
  requests succeed and the stock goes from 7 to 11, 4 returned of 3 sold. A request for 1
  and then 5 fails on its second item after the first item's return has been written: the
  stock is 8 and the product has a \<open>return\<close> movement. And of a sale with two lines of
  widgets, 1 and 3, a refund of 2 is refused although 4 were sold: the request is compared
  with the first line only.
\<close>

theorem refund_twice_exceeds_sold:
  "(case refund now0 db_sold sold_sale 7 [refund_of 2] ''damaged'' of
      (Inl e, d1) \<Rightarrow> False
    | (Inr sale1, d1) \<Rightarrow>
        (case refund now0 d1 sale1 7 [refund_of 2] ''damaged'' of
           (Inl e, d2) \<Rightarrow> False
         | (Inr sale2, d2) \<Rightarrow>
             map_option currentStock (products d2 1) = Some 11
             \<and> map_option (map rf_quantity o refundedItems) (refundInfo sale2) = Some [2]))
   \<and> (case refund now0 db_sold sold_sale 7 [refund_of 1, refund_of 5] ''damaged'' of
        (Inl e, d1) \<Rightarrow>
          e = Error ''Cannot refund more than sold quantity''
          \<and> map_option currentStock (products d1 1) = Some 8
          \<and> map_option (map sm_type o stockMovements) (products d1 1) = Some [return]
          \<and> sales d1 = sales db_sold
      | (Inr sale1, d1) \<Rightarrow> False)
   \<and> sold_quantity 1 (s_items two_line_sale) = 4
   \<and> refund now0 db_sold two_line_sale 7 [refund_of 2] ''damaged''
       = (Inl (Error ''Cannot refund more than sold quantity''), db_sold)"
  by (simp add: refund_def db_sold_def db0_def sold_sale_def two_line_sale_def widget_def
      refund_of_def restoreStock_def sold_quantity_def Let_def stock_eval)

text \<open>
  C3, amended. For a stored sale, products none of which has negative stock and a request
  whose quantities are 1 or more, \<open>refund\<close> is determined by the sale's status and the
  check \<open>within_sold\<close>, which compares each requested item with the first line of the
  sale for that product and with nothing that was refunded before. On a voided sale the
  request fails and nothing is written. Otherwise the items up to the first one that
  fails the check are restocked, each with a \<open>return\<close> movement that adds its quantity.
  When every item passes, the request succeeds and the sale is stored with a
  \<open>refundInfo\<close> that lists the lines of this request only. When one fails, the request
  ends in the exception for that item, and the stored sale is untouched, while the
  products keep the returns of the items before it. A request that has succeeded
  succeeds again on the sale it has stored.
\<close>

theorem refund_outcome:
  assumes "stored_sale this"
    and "\<forall>pid p. products d pid = Some p \<longrightarrow> 0 \<le> currentStock p"
    and "\<forall>refundItem\<in>set items. 1 \<le> rq_quantity refundItem"
  shows "(s_status this = voided \<longrightarrow>
            refund now d this userId items reason
              = (Inl (Error ''Cannot refund a voided sale''), d))
    \<and> (s_status this \<noteq> voided \<longrightarrow>
          refund now d this userId items reason =
           (if list_all (within_sold this) items
            then (Inr (refunded_sale now this userId items reason),
                  d\<lparr>products := (\<lambda>pid. map_option
                         (restocked_product now (receiptNumber this) userId reason
                            (takeWhile (within_sold this) items) pid) (products d pid)),
                    sales := (sales d)(s_id this \<mapsto>
                                refunded_sale now this userId items reason)\<rparr>)
            else (Inl (refund_error this
                         (items ! length (takeWhile (within_sold this) items))),
                  d\<lparr>products := (\<lambda>pid. map_option
                         (restocked_product now (receiptNumber this) userId reason
                            (takeWhile (within_sold this) items) pid) (products d pid))\<rparr>)))
    \<and> (s_status this \<noteq> voided \<and> list_all (within_sold this) items \<longrightarrow>
          stored_sale (refunded_sale now this userId items reason)
          \<and> fst (refund now' (snd (refund now d this userId items reason))
                   (refunded_sale now this userId items reason) userId' items reason')
              = Inr (refunded_sale now' (refunded_sale now this userId items reason)
                       userId' items reason'))
    \<and> map_option refundedItems (refundInfo (refunded_sale now this userId items reason))
        = Some (map (refund_line this) items)
    \<and> map rf_quantity (map (refund_line this) items) = map rq_quantity items
    \<and> currentStock (restocked_product now r u reason its pid p)
        = currentStock p + sum_list (map rq_quantity (requested_of pid its))
    \<and> stockMovements (refund_step now r u reason p refundItem) =
        slice_last 100 (stockMovements p @
          [\<lparr>sm_type = return, sm_quantity = rq_quantity refundItem,
            sm_previousStock = currentStock p,
            sm_newStock = currentStock p + rq_quantity refundItem, sm_reference = r,
            sm_reason = Some (''Refund: '' @ reason), sm_performedBy = u,
            sm_timestamp = now\<rparr>])"
proof -
  let ?this' = "refunded_sale now this userId items reason"
  have q0: "\<forall>refundItem\<in>set items. 0 \<le> rq_quantity refundItem"
    using assms(3) by force
  have c1: "s_status this = voided \<longrightarrow>
            refund now d this userId items reason
              = (Inl (Error ''Cannot refund a voided sale''), d)"
    by (simp add: refund_def)
  have c2: "s_status this \<noteq> voided \<longrightarrow>
          refund now d this userId items reason =
           (if list_all (within_sold this) items
            then (Inr ?this',
                  d\<lparr>products := (\<lambda>pid. map_option
                         (restocked_product now (receiptNumber this) userId reason
                            (takeWhile (within_sold this) items) pid) (products d pid)),
                    sales := (sales d)(s_id this \<mapsto> ?this')\<rparr>)
            else (Inl (refund_error this
                         (items ! length (takeWhile (within_sold this) items))),
                  d\<lparr>products := (\<lambda>pid. map_option
                         (restocked_product now (receiptNumber this) userId reason
                            (takeWhile (within_sold this) items) pid) (products d pid))\<rparr>))"
    using refund_equation [OF assms(2) q0] by blast
  have c3: "stored_sale ?this'
          \<and> fst (refund now' (snd (refund now d this userId items reason)) ?this'
                   userId' items reason')
              = Inr (refunded_sale now' ?this' userId' items reason')"
    if open_sale: "s_status this \<noteq> voided" and ok: "list_all (within_sold this) items"
  proof -
    let ?d' = "snd (refund now d this userId items reason)"
    have stored: "stored_sale ?this'"
      using assms(1) by (simp add: stored_sale_def refunded_sale_fields)
    have prods: "products ?d' = (\<lambda>pid. map_option
                         (restocked_product now (receiptNumber this) userId reason
                            (takeWhile (within_sold this) items) pid) (products d pid))"
      using c2 open_sale ok by simp
    have nonneg: "\<forall>pid p. products ?d' pid = Some p \<longrightarrow> 0 \<le> currentStock p"
    proof (intro allI impI)
      fix pid p
      assume "products ?d' pid = Some p"
      then obtain p0 where p0: "products d pid = Some p0"
        and p: "p = restocked_product now (receiptNumber this) userId reason
                      (takeWhile (within_sold this) items) pid p0"
        unfolding prods by auto
      have "0 \<le> currentStock p0" using assms(2) p0 by blast
      moreover have "0 \<le> sum_list (map rq_quantity
                         (requested_of pid (takeWhile (within_sold this) items)))"
      proof (rule sum_list_nonneg)
        fix x
        assume "x \<in> set (map rq_quantity
                         (requested_of pid (takeWhile (within_sold this) items)))"
        then obtain refundItem where "refundItem \<in> set items" and "x = rq_quantity refundItem"
          by (auto simp: requested_of_def dest: set_takeWhileD)
        then show "0 \<le> x" using q0 by simp
      qed
      ultimately show "0 \<le> currentStock p"
        unfolding p restocked_product_stock by simp
    qed
    have again: "list_all (within_sold ?this') items"
      using ok by (simp add: within_sold_refunded)
    have "fst (refund now' ?d' ?this' userId' items reason')
              = Inr (refunded_sale now' ?this' userId' items reason')"
      using refund_equation [OF nonneg q0 refunded_sale_fields(3),
          where now = now' and userId = userId' and reason = reason']
        again
      by simp
    with stored show ?thesis by (rule conjI)
  qed
  have c4: "map_option refundedItems (refundInfo ?this') = Some (map (refund_line this) items)"
    by (rule refunded_sale_fields(5))
  have c5: "map rf_quantity (map (refund_line this) items) = map rq_quantity items"
    by (simp add: refund_line_def)
  have c6: "currentStock (restocked_product now r u reason its pid p)
        = currentStock p + sum_list (map rq_quantity (requested_of pid its))"
    by (rule restocked_product_stock)
  have c7: "stockMovements (refund_step now r u reason p refundItem) =
        slice_last 100 (stockMovements p @
          [\<lparr>sm_type = return, sm_quantity = rq_quantity refundItem,
            sm_previousStock = currentStock p,
            sm_newStock = currentStock p + rq_quantity refundItem, sm_reference = r,
            sm_reason = Some (''Refund: '' @ reason), sm_performedBy = u,
            sm_timestamp = now\<rparr>])"
    by (rule refund_step_fields(4))
  show ?thesis
    apply (intro conjI)
          apply (fact c1)
         apply (fact c2)
        apply (rule impI)
        apply (erule conjE)
        apply (erule (1) c3)
       apply (fact c4)
      apply (fact c5)
     apply (fact c6)
    apply (fact c7)
    done
qed

theorem refund_outcome_witness:
  "refund now0 db_sold sold_sale 7 [refund_of 1, refund_of 5] ''damaged''
     = (Inl (Error ''Cannot refund more than sold quantity''),
        db_sold\<lparr>products := (\<lambda>pid. map_option
           (restocked_product now0 ''RCP23111400001'' 7 ''damaged'' [refund_of 1] pid)
           (products db_sold pid))\<rparr>)
   \<and> fst (refund now0 db_sold sold_sale 7 [refund_of 2] ''damaged'')
       = Inr (refunded_sale now0 sold_sale 7 [refund_of 2] ''damaged'')
   \<and> refund now0 db_sold (sold_sale\<lparr>s_status := voided\<rparr>) 7 [refund_of 2] ''damaged''
       = (Inl (Error ''Cannot refund a voided sale''), db_sold)"
proof -
  have st: "stored_sale sold_sale" "stored_sale (sold_sale\<lparr>s_status := voided\<rparr>)"
    by (simp_all add: stored_sale_def sold_sale_def)
  have ps: "\<forall>pid p. products db_sold pid = Some p \<longrightarrow> 0 \<le> currentStock p"
    by (simp add: db_sold_def db0_def widget_def)
  have q15: "\<forall>refundItem\<in>set [refund_of 1, refund_of 5]. 1 \<le> rq_quantity refundItem"
    and q2: "\<forall>refundItem\<in>set [refund_of 2]. 1 \<le> rq_quantity refundItem"
    by (simp_all add: refund_of_def)
  have w: "within_sold sold_sale (refund_of 1)" "\<not> within_sold sold_sale (refund_of 5)"
    "within_sold sold_sale (refund_of 2)"
    by (simp_all add: within_sold_def sold_sale_def refund_of_def)
  have e: "refund_error sold_sale (refund_of 5) = Error ''Cannot refund more than sold quantity''"
    by (simp add: refund_error_def sold_sale_def refund_of_def)
  have s: "s_status sold_sale \<noteq> voided" "receiptNumber sold_sale = ''RCP23111400001''"
    by (simp_all add: sold_sale_def)
  have a: "refund now0 db_sold sold_sale 7 [refund_of 1, refund_of 5] ''damaged''
     = (Inl (Error ''Cannot refund more than sold quantity''),
        db_sold\<lparr>products := (\<lambda>pid. map_option
           (restocked_product now0 ''RCP23111400001'' 7 ''damaged'' [refund_of 1] pid)
           (products db_sold pid))\<rparr>)"
    using refund_outcome [OF st(1) ps q15, of now0 7 "''damaged''", THEN conjunct2,
        THEN conjunct1]
    by (simp add: w e s)
  have b: "fst (refund now0 db_sold sold_sale 7 [refund_of 2] ''damaged'')
       = Inr (refunded_sale now0 sold_sale 7 [refund_of 2] ''damaged'')"
    using refund_outcome [OF st(1) ps q2, of now0 7 "''damaged''", THEN conjunct2,
        THEN conjunct1]
    by (simp add: w s)
  have c: "refund now0 db_sold (sold_sale\<lparr>s_status := voided\<rparr>) 7 [refund_of 2] ''damaged''
       = (Inl (Error ''Cannot refund a voided sale''), db_sold)"
    using refund_outcome [OF st(2) ps q2, of now0 7 "''damaged''", THEN conjunct1]
    by simp
  show ?thesis using a b c by simp
qed

section \<open>The M-Pesa callback and the status poll\<close>


lemma callback_field_Some:
  assumes "callback_field body k = Some v"
  obtains B c where "get_prop body ''Body'' = Inr B" and "get_prop B ''stkCallback'' = Inr c"
    and "get_prop c k = Inr v" and "c \<noteq> JUndefined" and "c \<noteq> JNull"
proof -
  from assms obtain B c where B: "get_prop body ''Body'' = Inr B"
    and c: "get_prop B ''stkCallback'' = Inr c" and v: "get_prop c k = Inr v"
    by (auto simp: callback_field_def split: sum.splits)
  from v have "c \<noteq> JUndefined" and "c \<noteq> JNull" by auto
  with B c v show thesis by (rule that)
qed

lemma get_prop_total:
  assumes "c \<noteq> JUndefined" and "c \<noteq> JNull"
  shows "\<exists>v. get_prop c k = Inr v"
  using assms by (cases c) simp_all

lemma callback_try_after_fields:
  assumes "callback_field body ''CheckoutRequestID'' = Some cid"
  obtains c rc desc where "callback_field body ''ResultCode'' = Some rc"
    and "callback_field body ''ResultDesc'' = Some desc"
    and "callback_try engine validDate store d body =
     (case lookup engine store (mpesaTransactions d) cid of
        Inl e \<Rightarrow> (Inl e, d)
      | Inr None \<Rightarrow> (Inr ''Transaction not found'', d)
      | Inr (Some i) \<Rightarrow>
     (case toString rc of
        Inl e \<Rightarrow> (Inl e, d)
      | Inr code \<Rightarrow>
     (let transaction = (mpesaTransactions d ! i)\<lparr>resultCode := Some code,
            callbackData := Some body\<rparr>
      in case (if rc = JNum 0
               then read_metadata validDate c (transaction\<lparr>t_status := tx_success\<rparr>)
               else Inr (transaction\<lparr>t_status := tx_failed\<rparr>)) of
           Inl e \<Rightarrow> (Inl e, d)
         | Inr transaction1 \<Rightarrow>
     (case cast_string desc of
        Inl e \<Rightarrow> (Inl e, d)
      | Inr desc' \<Rightarrow>
     (if store = SaveFails then (Inl (Error ''save failed''), d)
      else (Inr ''Callback processed successfully'',
            d\<lparr>mpesaTransactions :=
                (mpesaTransactions d)[i := transaction1\<lparr>resultDesc := desc'\<rparr>]\<rparr>))))))"
proof -
  from assms obtain B c where B: "get_prop body ''Body'' = Inr B"
    and c: "get_prop B ''stkCallback'' = Inr c"
    and id: "get_prop c ''CheckoutRequestID'' = Inr cid"
    and ne: "c \<noteq> JUndefined" "c \<noteq> JNull"
    by (rule callback_field_Some)
  from get_prop_total [OF ne] obtain rc where rc: "get_prop c ''ResultCode'' = Inr rc"
    by blast
  from get_prop_total [OF ne] obtain desc where desc: "get_prop c ''ResultDesc'' = Inr desc"
    by blast
  show ?thesis
  proof (rule that [of rc desc c])
    show "callback_field body ''ResultCode'' = Some rc"
      using B c rc by (simp add: callback_field_def)
    show "callback_field body ''ResultDesc'' = Some desc"
      using B c desc by (simp add: callback_field_def)
  qed (simp add: callback_try_def B c id rc desc)
qed

lemma read_metadata_status:
  assumes "read_metadata validDate c t = Inr t'"
  shows "t_status t' = t_status t"
  using assms
  by (auto simp: read_metadata_def split: sum.splits if_splits json.splits option.splits)


lemma find_index_of_Some:
  assumes "find_index_of P xs = Some i"
  shows "i < length xs"
  using assms
  by (induction xs arbitrary: i) (auto split: if_splits)


lemma lookup_Some:
  assumes "lookup engine store txs v = Inr (Some i)"
  shows "i < length txs"
  using assms
  by (auto simp: lookup_def findByCheckoutRequestId_def ask_engine_def
      split: if_splits json.splits option.splits sum.splits dest: find_index_of_Some)

lemma callback_processed:
  assumes ok: "callback_try engine validDate store d body
                 = (Inr ''Callback processed successfully'', d')"
    and cid: "callback_field body ''CheckoutRequestID'' = Some cid"
    and rc: "callback_field body ''ResultCode'' = Some rc"
    and i: "lookup engine store (mpesaTransactions d) cid = Inr (Some i)"
  shows "t_status (mpesaTransactions d' ! i) = (if rc = JNum 0 then tx_success else tx_failed)"
    and "rc \<noteq> JNum 0 \<Longrightarrow>
           mpesaReceiptNumber (mpesaTransactions d' ! i) =
             mpesaReceiptNumber (mpesaTransactions d ! i)"
    and "length (mpesaTransactions d') = length (mpesaTransactions d)"
    and "j \<noteq> i \<Longrightarrow> mpesaTransactions d' ! j = mpesaTransactions d ! j"
proof -
  from cid obtain c rc' desc where rc': "callback_field body ''ResultCode'' = Some rc'" and
    eq: "callback_try engine validDate store d body =
     (case lookup engine store (mpesaTransactions d) cid of
        Inl e \<Rightarrow> (Inl e, d)
      | Inr None \<Rightarrow> (Inr ''Transaction not found'', d)
      | Inr (Some i) \<Rightarrow>
     (case toString rc' of
        Inl e \<Rightarrow> (Inl e, d)
      | Inr code \<Rightarrow>
     (let transaction = (mpesaTransactions d ! i)\<lparr>resultCode := Some code,
            callbackData := Some body\<rparr>
      in case (if rc' = JNum 0
               then read_metadata validDate c (transaction\<lparr>t_status := tx_success\<rparr>)
               else Inr (transaction\<lparr>t_status := tx_failed\<rparr>)) of
           Inl e \<Rightarrow> (Inl e, d)
         | Inr transaction1 \<Rightarrow>
     (case cast_string desc of
        Inl e \<Rightarrow> (Inl e, d)
      | Inr desc' \<Rightarrow>
     (if store = SaveFails then (Inl (Error ''save failed''), d)
      else (Inr ''Callback processed successfully'',
            d\<lparr>mpesaTransactions :=
                (mpesaTransactions d)[i := transaction1\<lparr>resultDesc := desc'\<rparr>]\<rparr>))))))"
    by (rule callback_try_after_fields)
  have same: "rc' = rc" using rc rc' by simp
  have len: "i < length (mpesaTransactions d)"
    by (rule lookup_Some [OF i])
  show "t_status (mpesaTransactions d' ! i) = (if rc = JNum 0 then tx_success else tx_failed)"
    using ok len unfolding eq same i
    by (auto simp: Let_def split: if_splits sum.splits dest: read_metadata_status)
  show "rc \<noteq> JNum 0 \<Longrightarrow>
           mpesaReceiptNumber (mpesaTransactions d' ! i) =
             mpesaReceiptNumber (mpesaTransactions d ! i)"
    using ok len unfolding eq same i
    by (auto simp: Let_def split: if_splits sum.splits)
  show "length (mpesaTransactions d') = length (mpesaTransactions d)"
    using ok len unfolding eq same i
    by (auto simp: Let_def split: if_splits sum.splits)
  show "j \<noteq> i \<Longrightarrow> mpesaTransactions d' ! j = mpesaTransactions d ! j"
    using ok len unfolding eq same i
    by (auto simp: Let_def split: if_splits sum.splits)
qed

text \<open>A callback with a result code that is a number other than 0 and a description that
  is a string is processed whenever the lookup finds a transaction and the store is
  healthy.\<close>

lemma callback_failure_processed:
  assumes cid: "callback_field body ''CheckoutRequestID'' = Some cid"
    and rc: "callback_field body ''ResultCode'' = Some (JNum n)" and n: "n \<noteq> 0"
    and desc: "callback_field body ''ResultDesc'' = Some (JStr s)"
    and i: "lookup engine Healthy (mpesaTransactions d) cid = Inr (Some i)"
  shows "mpesaCallback engine validDate Healthy d body =
           ((200, ''Callback processed successfully''),
            d\<lparr>mpesaTransactions := (mpesaTransactions d)
                 [i := (mpesaTransactions d ! i)\<lparr>resultCode := Some (show_int n),
                         callbackData := Some body, t_status := tx_failed,
                         resultDesc := Some s\<rparr>]\<rparr>)"
proof -
  from cid obtain c rc' desc' where rc': "callback_field body ''ResultCode'' = Some rc'"
    and desc': "callback_field body ''ResultDesc'' = Some desc'" and
    eq: "callback_try engine validDate Healthy d body =
     (case lookup engine Healthy (mpesaTransactions d) cid of
        Inl e \<Rightarrow> (Inl e, d)
      | Inr None \<Rightarrow> (Inr ''Transaction not found'', d)
      | Inr (Some i) \<Rightarrow>
     (case toString rc' of
        Inl e \<Rightarrow> (Inl e, d)
      | Inr code \<Rightarrow>
     (let transaction = (mpesaTransactions d ! i)\<lparr>resultCode := Some code,
            callbackData := Some body\<rparr>
      in case (if rc' = JNum 0
               then read_metadata validDate c (transaction\<lparr>t_status := tx_success\<rparr>)
               else Inr (transaction\<lparr>t_status := tx_failed\<rparr>)) of
           Inl e \<Rightarrow> (Inl e, d)
         | Inr transaction1 \<Rightarrow>
     (case cast_string desc' of
        Inl e \<Rightarrow> (Inl e, d)
      | Inr desc'' \<Rightarrow>
     (if Healthy = SaveFails then (Inl (Error ''save failed''), d)
      else (Inr ''Callback processed successfully'',
            d\<lparr>mpesaTransactions :=
                (mpesaTransactions d)[i := transaction1\<lparr>resultDesc := desc''\<rparr>]\<rparr>))))))"
    by (rule callback_try_after_fields)
  have r: "rc' = JNum n" using rc rc' by simp
  have s: "desc' = JStr s" using desc desc' by simp
  show ?thesis
    unfolding mpesaCallback_def eq r s i using n
    by (simp add: toString_def Let_def)
qed

lemma poll_terminal:
  assumes "find_index_of (\<lambda>t. checkoutRequestId t = cid) (mpesaTransactions d) = Some i"
    and "t_status (mpesaTransactions d ! i) = tx_success
         \<or> t_status (mpesaTransactions d ! i) = tx_failed"
  shows "checkMpesaPaymentStatus now d cid q = (Inr (respond (mpesaTransactions d ! i) True), d)"
  using assms by (auto simp: checkMpesaPaymentStatus_def Let_def)


lemma callback_found:
  assumes cid: "callback_field body ''CheckoutRequestID'' = Some cid"
    and i: "lookup engine store (mpesaTransactions d) cid = Inr (Some i)"
  shows "(\<exists>d'. mpesaCallback engine validDate store d body
                 = ((200, ''Callback processed successfully''), d')
              \<and> callback_try engine validDate store d body
                 = (Inr ''Callback processed successfully'', d'))
         \<or> mpesaCallback engine validDate store d body
              = ((500, ''Callback processing failed''), d)"
    and "store = SaveFails \<Longrightarrow>
           mpesaCallback engine validDate store d body
             = ((500, ''Callback processing failed''), d)"
proof -
  from cid obtain c rc desc where
    eq: "callback_try engine validDate store d body =
     (case lookup engine store (mpesaTransactions d) cid of
        Inl e \<Rightarrow> (Inl e, d)
      | Inr None \<Rightarrow> (Inr ''Transaction not found'', d)
      | Inr (Some i) \<Rightarrow>
     (case toString rc of
        Inl e \<Rightarrow> (Inl e, d)
      | Inr code \<Rightarrow>
     (let transaction = (mpesaTransactions d ! i)\<lparr>resultCode := Some code,
            callbackData := Some body\<rparr>
      in case (if rc = JNum 0
               then read_metadata validDate c (transaction\<lparr>t_status := tx_success\<rparr>)
               else Inr (transaction\<lparr>t_status := tx_failed\<rparr>)) of
           Inl e \<Rightarrow> (Inl e, d)
         | Inr transaction1 \<Rightarrow>
     (case cast_string desc of
        Inl e \<Rightarrow> (Inl e, d)
      | Inr desc' \<Rightarrow>
     (if store = SaveFails then (Inl (Error ''save failed''), d)
      else (Inr ''Callback processed successfully'',
            d\<lparr>mpesaTransactions :=
                (mpesaTransactions d)[i := transaction1\<lparr>resultDesc := desc'\<rparr>]\<rparr>))))))"
    by (rule callback_try_after_fields)
  show "(\<exists>d'. mpesaCallback engine validDate store d body
                 = ((200, ''Callback processed successfully''), d')
              \<and> callback_try engine validDate store d body
                 = (Inr ''Callback processed successfully'', d'))
         \<or> mpesaCallback engine validDate store d body
              = ((500, ''Callback processing failed''), d)"
    unfolding mpesaCallback_def eq i
    by (auto simp: Let_def split: sum.splits)
  show "store = SaveFails \<Longrightarrow>
           mpesaCallback engine validDate store d body
             = ((500, ''Callback processing failed''), d)"
    unfolding mpesaCallback_def eq i
    by (auto simp: Let_def split: sum.splits)
qed


text \<open>
  C1, the claim as stated fails. A callback with result code 1032 for the transaction
  that is already in state \<open>success\<close> is processed and leaves it in state \<open>failed\<close>,
  whether its id is sent as a string or as a one-element array; and a poll of a
  transaction in state \<open>cancelled\<close>, answered by the gateway with result code 0, leaves
  it in state \<open>success\<close>.
\<close>

theorem terminal_state_overwritten:
  "map t_status (mpesaTransactions db_paid) = [tx_success]
   \<and> (\<forall>engine.
        fst (mpesaCallback engine (\<lambda>s. True) Healthy db_paid late_callback) =
          (200, ''Callback processed successfully'')
        \<and> map t_status (mpesaTransactions (snd (mpesaCallback engine (\<lambda>s. True) Healthy
              db_paid late_callback))) = [tx_failed])
   \<and> (\<forall>engine.
        fst (mpesaCallback engine (\<lambda>s. True) Healthy db_paid array_callback) =
          (200, ''Callback processed successfully'')
        \<and> map t_status (mpesaTransactions (snd (mpesaCallback engine (\<lambda>s. True) Healthy
              db_paid array_callback))) = [tx_failed])
   \<and> map t_status (mpesaTransactions db_cancelled) = [tx_cancelled]
   \<and> map t_status (mpesaTransactions (snd (checkMpesaPaymentStatus now0 db_cancelled
         ''ws_CO_1'' (QueryResult ''0'' ''ok'')))) = [tx_success]"
  by (simp add: mpesaCallback_def callback_try_def lookup_def findByCheckoutRequestId_def
      db_paid_def db_cancelled_def db0_def
      paid_transaction_def late_callback_def array_callback_def toString_def or_default_def
      Let_def checkMpesaPaymentStatus_def queried_recently_def query_status_def text_eval)

text \<open>
  C1, amended. The poll leaves a transaction in state \<open>success\<close> or \<open>failed\<close>
  unchanged and answers from the stored record. The callback has no such guard. Whenever
  its lookup finds a stored transaction, whatever its state, the callback is either
  answered with 500 and nothing is written, or it is processed: that transaction's state
  becomes \<open>success\<close> if the result code is the number 0 and \<open>failed\<close> otherwise, a
  result code other than 0 leaves the receipt number as it was, and no other transaction
  changes. A callback whose result code is a number other than 0 and whose description is
  a string is always processed when the store is healthy.
\<close>

theorem terminal_state_handling:
  "(\<forall>i. find_index_of (\<lambda>t. checkoutRequestId t = cid) (mpesaTransactions d) = Some i
        \<and> (t_status (mpesaTransactions d ! i) = tx_success
           \<or> t_status (mpesaTransactions d ! i) = tx_failed) \<longrightarrow>
        checkMpesaPaymentStatus now d cid q =
          (Inr (respond (mpesaTransactions d ! i) True), d))
   \<and> (\<forall>cid' rc i.
        callback_field body ''CheckoutRequestID'' = Some cid'
        \<and> callback_field body ''ResultCode'' = Some rc
        \<and> lookup engine store (mpesaTransactions d) cid' = Inr (Some i) \<longrightarrow>
        i < length (mpesaTransactions d)
        \<and> (mpesaCallback engine validDate store d body
             = ((500, ''Callback processing failed''), d)
           \<or> fst (mpesaCallback engine validDate store d body)
               = (200, ''Callback processed successfully'')
             \<and> t_status (mpesaTransactions (snd (mpesaCallback engine validDate store d body))
                   ! i) = (if rc = JNum 0 then tx_success else tx_failed)
             \<and> (rc = JNum 0
                \<or> mpesaReceiptNumber
                     (mpesaTransactions (snd (mpesaCallback engine validDate store d body)) ! i)
                   = mpesaReceiptNumber (mpesaTransactions d ! i))
             \<and> length (mpesaTransactions (snd (mpesaCallback engine validDate store d body)))
                 = length (mpesaTransactions d)
             \<and> (\<forall>j. j = i
                   \<or> mpesaTransactions (snd (mpesaCallback engine validDate store d body)) ! j
                     = mpesaTransactions d ! j)))
   \<and> (\<forall>cid' n s i.
        callback_field body ''CheckoutRequestID'' = Some cid'
        \<and> callback_field body ''ResultCode'' = Some (JNum n) \<and> n \<noteq> 0
        \<and> callback_field body ''ResultDesc'' = Some (JStr s)
        \<and> lookup engine Healthy (mpesaTransactions d) cid' = Inr (Some i) \<longrightarrow>
        fst (mpesaCallback engine validDate Healthy d body)
          = (200, ''Callback processed successfully'')
        \<and> t_status (mpesaTransactions (snd (mpesaCallback engine validDate Healthy d body)) ! i)
          = tx_failed)"
proof (intro conjI allI impI)
  fix i
  assume "find_index_of (\<lambda>t. checkoutRequestId t = cid) (mpesaTransactions d) = Some i
        \<and> (t_status (mpesaTransactions d ! i) = tx_success
           \<or> t_status (mpesaTransactions d ! i) = tx_failed)"
  then show "checkMpesaPaymentStatus now d cid q =
          (Inr (respond (mpesaTransactions d ! i) True), d)"
    using poll_terminal by blast
next
  fix cid' rc i
  assume a: "callback_field body ''CheckoutRequestID'' = Some cid'
        \<and> callback_field body ''ResultCode'' = Some rc
        \<and> lookup engine store (mpesaTransactions d) cid' = Inr (Some i)"
  then have cid: "callback_field body ''CheckoutRequestID'' = Some cid'"
    and rc: "callback_field body ''ResultCode'' = Some rc"
    and i: "lookup engine store (mpesaTransactions d) cid' = Inr (Some i)"
    by simp_all
  show "i < length (mpesaTransactions d)"
    by (rule lookup_Some [OF i])
  let ?M = "mpesaCallback engine validDate store d body"
  from callback_found(1) [OF cid i, of validDate]
  show "?M = ((500, ''Callback processing failed''), d)
           \<or> fst ?M = (200, ''Callback processed successfully'')
             \<and> t_status (mpesaTransactions (snd ?M) ! i)
                 = (if rc = JNum 0 then tx_success else tx_failed)
             \<and> (rc = JNum 0
                \<or> mpesaReceiptNumber (mpesaTransactions (snd ?M) ! i)
                   = mpesaReceiptNumber (mpesaTransactions d ! i))
             \<and> length (mpesaTransactions (snd ?M)) = length (mpesaTransactions d)
             \<and> (\<forall>j. j = i \<or> mpesaTransactions (snd ?M) ! j = mpesaTransactions d ! j)"
  proof
    assume "\<exists>d'. ?M = ((200, ''Callback processed successfully''), d')
              \<and> callback_try engine validDate store d body
                 = (Inr ''Callback processed successfully'', d')"
    then obtain d' where M: "?M = ((200, ''Callback processed successfully''), d')"
      and ok: "callback_try engine validDate store d body
                 = (Inr ''Callback processed successfully'', d')"
      by blast
    have "fst ?M = (200, ''Callback processed successfully'')"
      and "t_status (mpesaTransactions (snd ?M) ! i)
                 = (if rc = JNum 0 then tx_success else tx_failed)"
      and "rc = JNum 0
                \<or> mpesaReceiptNumber (mpesaTransactions (snd ?M) ! i)
                   = mpesaReceiptNumber (mpesaTransactions d ! i)"
      and "length (mpesaTransactions (snd ?M)) = length (mpesaTransactions d)"
      and "\<forall>j. j = i \<or> mpesaTransactions (snd ?M) ! j = mpesaTransactions d ! j"
      using callback_processed [OF ok cid rc i] by (auto simp: M)
    then show ?thesis by blast
  next
    assume "?M = ((500, ''Callback processing failed''), d)"
    then show ?thesis by blast
  qed
next
  fix cid' n s i
  assume a: "callback_field body ''CheckoutRequestID'' = Some cid'
        \<and> callback_field body ''ResultCode'' = Some (JNum n) \<and> n \<noteq> 0
        \<and> callback_field body ''ResultDesc'' = Some (JStr s)
        \<and> lookup engine Healthy (mpesaTransactions d) cid' = Inr (Some i)"
  then have cid: "callback_field body ''CheckoutRequestID'' = Some cid'"
    and rc: "callback_field body ''ResultCode'' = Some (JNum n)" and n: "n \<noteq> 0"
    and desc: "callback_field body ''ResultDesc'' = Some (JStr s)"
    and i: "lookup engine Healthy (mpesaTransactions d) cid' = Inr (Some i)"
    by simp_all
  have len: "i < length (mpesaTransactions d)" by (rule lookup_Some [OF i])
  note M = callback_failure_processed [OF cid rc n desc i, of validDate]
  show "fst (mpesaCallback engine validDate Healthy d body)
          = (200, ''Callback processed successfully'')"
    by (simp add: M)
  show "t_status (mpesaTransactions (snd (mpesaCallback engine validDate Healthy d body)) ! i)
          = tx_failed"
    using len by (simp add: M)
qed

theorem terminal_state_handling_witness:
  "checkMpesaPaymentStatus now0 db_paid ''ws_CO_1'' (QueryResult ''1'' ''failed'') =
     (Inr \<lparr>r_status = tx_success, r_transactionId = Some ''ABC123'',
           r_resultDesc = Some ''ok''\<rparr>, db_paid)
   \<and> fst (mpesaCallback no_engine (\<lambda>s. True) Healthy db_paid array_callback)
       = (200, ''Callback processed successfully'')
   \<and> t_status (mpesaTransactions
        (snd (mpesaCallback no_engine (\<lambda>s. True) Healthy db_paid array_callback)) ! 0)
       = tx_failed"
proof -
  have f: "find_index_of (\<lambda>t. checkoutRequestId t = ''ws_CO_1'') (mpesaTransactions db_paid)
             = Some 0"
    by (simp add: db_paid_def paid_transaction_def)
  have s: "t_status (mpesaTransactions db_paid ! 0) = tx_success"
    by (simp add: db_paid_def paid_transaction_def)
  have r: "respond (mpesaTransactions db_paid ! 0) True =
             \<lparr>r_status = tx_success, r_transactionId = Some ''ABC123'',
              r_resultDesc = Some ''ok''\<rparr>"
    by (simp add: db_paid_def paid_transaction_def respond_def)
  have id: "callback_field array_callback ''CheckoutRequestID''
              = Some (JArr [JStr ''ws_CO_1''])"
    and rc: "callback_field array_callback ''ResultCode'' = Some (JNum 1032)"
    and desc: "callback_field array_callback ''ResultDesc''
                 = Some (JStr ''Request cancelled by user'')"
    by (simp_all add: callback_field_def array_callback_def or_default_def)
  have l: "lookup no_engine Healthy (mpesaTransactions db_paid) (JArr [JStr ''ws_CO_1''])
             = Inr (Some 0)"
    by (simp add: lookup_def findByCheckoutRequestId_def db_paid_def paid_transaction_def)
  note t = terminal_state_handling [of "''ws_CO_1''" db_paid now0 "QueryResult ''1'' ''failed''"
      array_callback no_engine Healthy "\<lambda>s. True"]
  have a: "checkMpesaPaymentStatus now0 db_paid ''ws_CO_1'' (QueryResult ''1'' ''failed'') =
     (Inr \<lparr>r_status = tx_success, r_transactionId = Some ''ABC123'',
           r_resultDesc = Some ''ok''\<rparr>, db_paid)"
    using t [THEN conjunct1, rule_format, of 0] f s r by simp
  have b: "fst (mpesaCallback no_engine (\<lambda>s. True) Healthy db_paid array_callback)
       = (200, ''Callback processed successfully'')
   \<and> t_status (mpesaTransactions
        (snd (mpesaCallback no_engine (\<lambda>s. True) Healthy db_paid array_callback)) ! 0)
       = tx_failed"
    using t [THEN conjunct2, THEN conjunct2, rule_format,
        of "JArr [JStr ''ws_CO_1'']" 1032 "''Request cancelled by user''" 0] id rc desc l
    by simp
  show ?thesis using a b by simp
qed




section \<open>Further properties\<close>

lemma updateStock_succeeds:
  assumes "0 \<le> proposedStock type (currentStock p) q"
  shows "\<exists>p'. updateStock now p q type r u reason = Inr p'"
  using assms by (simp add: updateStock_def product_save_def stockUpdated_currentStock)

text \<open>
  \<open>updateStock\<close> raises the insufficient-stock error exactly when the proposed stock is
  negative and backorder is not allowed; and when the proposed stock is not negative it
  saves the product with that stock and with one movement appended that records the type,
  the quantity and the stock before and after, the history cut to its last 100 entries.
\<close>

theorem updateStock_effect:
  "(updateStock now p q type r u reason = Inl (Error ''Insufficient stock'')
      \<longleftrightarrow> proposedStock type (currentStock p) q < 0 \<and> \<not> allowBackorder p)
   \<and> (0 \<le> proposedStock type (currentStock p) q \<longrightarrow>
        (\<exists>p'. updateStock now p q type r u reason = Inr p'
           \<and> currentStock p' = proposedStock type (currentStock p) q
           \<and> stockMovements p' =
               slice_last 100 (stockMovements p @
                 [\<lparr>sm_type = type, sm_quantity = q, sm_previousStock = currentStock p,
                   sm_newStock = proposedStock type (currentStock p) q, sm_reference = r,
                   sm_reason = reason, sm_performedBy = u, sm_timestamp = now\<rparr>])))"
  by (auto simp: updateStock_def product_save_def stockUpdated_currentStock
      stockUpdated_movements)

theorem updateStock_effect_witness:
  "updateStock now0 widget 11 sale ''RCP2311140001'' 7 None = Inl (Error ''Insufficient stock'')
   \<and> (\<exists>p'. updateStock now0 widget 3 sale ''RCP2311140001'' 7 None = Inr p'
          \<and> currentStock p' = 7
          \<and> map sm_quantity (stockMovements p') = [3])"
proof -
  have a: "proposedStock sale (currentStock widget) 11 < 0 \<and> \<not> allowBackorder widget"
    by (simp add: widget_def)
  have b: "proposedStock sale (currentStock widget) 3 = 7" "stockMovements widget = []"
    by (simp_all add: widget_def)
  from updateStock_effect [of now0 widget 11 sale "''RCP2311140001''" 7 None] a
  have x: "updateStock now0 widget 11 sale ''RCP2311140001'' 7 None =
             Inl (Error ''Insufficient stock'')"
    by blast
  from updateStock_effect [of now0 widget 3 sale "''RCP2311140001''" 7 None] b
  have y: "\<exists>p'. updateStock now0 widget 3 sale ''RCP2311140001'' 7 None = Inr p'
          \<and> currentStock p' = 7
          \<and> map sm_quantity (stockMovements p') = [3]"
    by (auto simp: slice_last_def)
  show ?thesis using x y by blast
qed

text \<open>
  A call of \<open>getNextSequence\<close> for a counter that exists returns 1 and stamps
  \<open>lastReset\<close> when the reset boundary of the counter's period has been crossed, and
  the stored \<open>seq\<close> plus 1 otherwise; the value returned is the value stored. So two calls
  in a row, the second without a reset, return numbers that differ by exactly 1.
\<close>

theorem getNextSequence_existing:
  assumes "cs counterId = Some c"
  shows "fst (getNextSequence now cs counterId options) =
           (if shouldReset (resetPeriod c) now (lastReset c) then 1 else seq c + 1)
       \<and> map_option seq (snd (getNextSequence now cs counterId options) counterId) =
           Some (fst (getNextSequence now cs counterId options))
       \<and> map_option lastReset (snd (getNextSequence now cs counterId options) counterId) =
           Some (if shouldReset (resetPeriod c) now (lastReset c) then now else lastReset c)
       \<and> map_option resetPeriod (snd (getNextSequence now cs counterId options) counterId) =
           Some (resetPeriod c)"
  using assms by (simp add: getNextSequence_def Let_def)

theorem getNextSequence_existing_witness:
  "fst (getNextSequence now0 (snd (getNextSequence now0 Map.empty ''receipt'' no_options))
          ''receipt'' no_options) = 1"
proof -
  have c: "snd (getNextSequence now0 Map.empty ''receipt'' no_options) ''receipt'' =
             Some \<lparr>seq = 0, prefix = [], suffix = [], lastReset = now0, resetPeriod = never\<rparr>"
    by (simp add: counter_eval)
  from getNextSequence_existing
         [of "snd (getNextSequence now0 Map.empty ''receipt'' no_options)" "''receipt''"
            "\<lparr>seq = 0, prefix = [], suffix = [], lastReset = now0, resetPeriod = never\<rparr>"
            now0 no_options, OF c]
  show ?thesis by simp
qed

lemma updateStock_static:
  assumes "updateStock now p q type r u reason = Inr p'"
  shows "same_static p p'" and "currentStock p' = proposedStock type (currentStock p) q"
  using assms
  by (auto simp: updateStock_def product_save_def stockUpdated_def same_static_def Let_def
      split: if_splits)

lemma sold_quantity_Nil: "sold_quantity pid [] = 0"
  by (simp add: sold_quantity_def)

lemma sold_quantity_Cons:
  "sold_quantity pid (item # items) =
     (if si_product item = pid then si_quantity item + sold_quantity pid items
      else sold_quantity pid items)"
  by (simp add: sold_quantity_def)

lemma updateStock_nonneg:
  assumes "updateStock now p q type r u reason = Inr p'"
  shows "0 \<le> currentStock p'"
  using assms
  by (auto simp: updateStock_def product_save_def split: if_splits)

lemma sell_items_nonneg:
  assumes "\<forall>pid p. ps pid = Some p \<longrightarrow> 0 \<le> currentStock p"
  shows "\<forall>pid p. snd (sell_items now ps items r u) pid = Some p \<longrightarrow> 0 \<le> currentStock p"
  using assms
proof (induction items arbitrary: ps)
  case Nil
  then show ?case by simp
next
  case (Cons item items)
  show ?case
  proof (cases "ps (si_product item)")
    case None
    then show ?thesis using Cons.prems by simp
  next
    case (Some q)
    show ?thesis
    proof (cases "trackInventory q")
      case False
      then show ?thesis using Some Cons by simp
    next
      case True
      show ?thesis
      proof (cases "updateStock now q (si_quantity item) sale r u None")
        case (Inl e)
        then show ?thesis using Some True Cons.prems by simp
      next
        case (Inr q')
        have nn: "\<forall>pid p. (ps(si_product item \<mapsto> q')) pid = Some p \<longrightarrow> 0 \<le> currentStock p"
          using Cons.prems updateStock_nonneg [OF Inr] by auto
        have step: "sell_items now ps (item # items) r u =
                    sell_items now (ps(si_product item \<mapsto> q')) items r u"
          using Some True Inr by simp
        show ?thesis unfolding step by (rule Cons.IH [OF nn])
      qed
    qed
  qed
qed

lemma sell_items_stock:
  assumes "fst (sell_items now ps items r u) = None" and "ps pid = Some p"
  shows "\<exists>p'. snd (sell_items now ps items r u) pid = Some p' \<and> same_static p p'
          \<and> currentStock p' = (if trackInventory p then currentStock p - sold_quantity pid items
                                else currentStock p)"
  using assms
proof (induction items arbitrary: ps p)
  case Nil
  then show ?case by (simp add: sold_quantity_Nil)
next
  case (Cons item items)
  show ?case
  proof (cases "ps (si_product item)")
    case None
    then show ?thesis using Cons.prems by simp
  next
    case (Some q)
    show ?thesis
    proof (cases "trackInventory q")
      case False
      have rest: "fst (sell_items now ps items r u) = None"
        using Cons.prems(1) Some False by simp
      have step: "sell_items now ps (item # items) r u = sell_items now ps items r u"
        using Some False by simp
      from Cons.IH [OF rest Cons.prems(2)] obtain p' where
        p': "snd (sell_items now ps items r u) pid = Some p'" "same_static p p'"
          "currentStock p' = (if trackInventory p then currentStock p - sold_quantity pid items
                              else currentStock p)"
        by blast
      have "si_product item = pid \<Longrightarrow> \<not> trackInventory p"
        using Some False Cons.prems(2) by simp
      then have "currentStock p' =
                   (if trackInventory p then currentStock p - sold_quantity pid (item # items)
                    else currentStock p)"
        using p'(3) by (auto simp: sold_quantity_Cons)
      then show ?thesis unfolding step using p'(1,2) by blast
    next
      case True
      show ?thesis
      proof (cases "updateStock now q (si_quantity item) sale r u None")
        case (Inl e)
        then show ?thesis using Some True Cons.prems by simp
      next
        case (Inr q')
        have st: "same_static q q'" by (rule updateStock_static(1) [OF Inr])
        have cs: "currentStock q' = currentStock q - si_quantity item"
          using updateStock_static(2) [OF Inr] by simp
        have rest: "fst (sell_items now (ps(si_product item \<mapsto> q')) items r u) = None"
          using Cons.prems(1) Some True Inr by simp
        have step: "sell_items now ps (item # items) r u =
                    sell_items now (ps(si_product item \<mapsto> q')) items r u"
          using Some True Inr by simp
        show ?thesis
        proof (cases "si_product item = pid")
          case eq: True
          then have pq: "p = q" using Some Cons.prems by simp
          have here: "(ps(si_product item \<mapsto> q')) pid = Some q'" using eq by simp
          have tq: "trackInventory q'" "trackInventory p"
            using st True pq by (simp_all add: same_static_def)
          from Cons.IH [OF rest here] obtain p' where
            p': "snd (sell_items now (ps(si_product item \<mapsto> q')) items r u) pid = Some p'"
              "same_static q' p'"
              "currentStock p' = (if trackInventory q'
                                  then currentStock q' - sold_quantity pid items
                                  else currentStock q')"
            by blast
          have a: "same_static p p'"
            using st p'(2) pq by (blast intro: same_static_trans)
          have b: "currentStock p' =
                     (if trackInventory p then currentStock p - sold_quantity pid (item # items)
                      else currentStock p)"
            using p'(3) tq cs pq eq by (simp add: sold_quantity_Cons)
          show ?thesis unfolding step using p'(1) a b by blast
        next
          case ne: False
          have here: "(ps(si_product item \<mapsto> q')) pid = Some p"
            using ne Cons.prems(2) by simp
          from Cons.IH [OF rest here] obtain p' where
            p': "snd (sell_items now (ps(si_product item \<mapsto> q')) items r u) pid = Some p'"
              "same_static p p'"
              "currentStock p' = (if trackInventory p
                                  then currentStock p - sold_quantity pid items
                                  else currentStock p)"
            by blast
          have b: "currentStock p' =
                     (if trackInventory p then currentStock p - sold_quantity pid (item # items)
                      else currentStock p)"
            using p'(3) ne by (simp add: sold_quantity_Cons)
          show ?thesis unfolding step using p'(1,2) b by blast
        qed
      qed
    qed
  qed
qed

lemma restoreStock_nonneg:
  assumes "ps pid = Some p" and "0 \<le> currentStock p" and "0 \<le> q"
  shows "\<exists>p'. restoreStock now ps pid q r u reason = Inr (ps(pid \<mapsto> p')) \<and> same_static p p'
           \<and> currentStock p' = currentStock p + q"
proof -
  have "0 \<le> proposedStock return (currentStock p) q" using assms by simp
  from updateStock_succeeds [OF this, of now r u "Some reason"]
  obtain p' where p': "updateStock now p q return r u (Some reason) = Inr p'"
    by blast
  note p' = p' updateStock_static(2) [OF p']
  have st: "same_static p p'" by (rule updateStock_static(1) [OF p'(1)])
  have "restoreStock now ps pid q r u reason = Inr (ps(pid \<mapsto> p'))"
    using assms(1) p'(1) by (simp add: restoreStock_def)
  moreover have "currentStock p' = currentStock p + q" using p'(2) by simp
  ultimately show ?thesis using st by blast
qed

lemma void_items_stock:
  assumes "\<forall>pid p. ps pid = Some p \<longrightarrow> 0 \<le> currentStock p"
    and "\<forall>item \<in> set items. 0 \<le> si_quantity item"
  shows "fst (void_items now ps items r u reason) = None
       \<and> (\<forall>pid p. ps pid = Some p \<longrightarrow>
            (\<exists>p'. snd (void_items now ps items r u reason) pid = Some p' \<and> same_static p p'
               \<and> currentStock p' = currentStock p + sold_quantity pid items))"
  using assms
proof (induction items arbitrary: ps)
  case Nil
  then show ?case by (simp add: sold_quantity_Nil)
next
  case (Cons item items)
  have qs: "\<forall>item \<in> set items. 0 \<le> si_quantity item" and q: "0 \<le> si_quantity item"
    using Cons.prems(2) by simp_all
  show ?case
  proof (cases "ps (si_product item)")
    case None
    have step: "void_items now ps (item # items) r u reason = void_items now ps items r u reason"
      using None by (simp add: restoreStock_def)
    have ne: "\<And>pid p. ps pid = Some p \<Longrightarrow> si_product item \<noteq> pid"
      using None by auto
    show ?thesis
      unfolding step using Cons.IH [OF Cons.prems(1) qs] ne
      by (simp add: sold_quantity_Cons)
  next
    case (Some p0)
    have nn0: "0 \<le> currentStock p0" using Cons.prems(1) Some by blast
    from restoreStock_nonneg [of ps "si_product item" p0 "si_quantity item", OF Some nn0 q]
    obtain p1 where
      p1: "restoreStock now ps (si_product item) (si_quantity item) r u
             (''Voided sale: '' @ reason) = Inr (ps(si_product item \<mapsto> p1))"
        "same_static p0 p1" "currentStock p1 = currentStock p0 + si_quantity item"
      by blast
    let ?ps1 = "ps(si_product item \<mapsto> p1)"
    have step: "void_items now ps (item # items) r u reason =
                void_items now ?ps1 items r u reason"
      using p1(1) by simp
    have nn1: "\<forall>pid p. ?ps1 pid = Some p \<longrightarrow> 0 \<le> currentStock p"
      using Cons.prems(1) nn0 q p1(3) by auto
    note ih = Cons.IH [OF nn1 qs]
    show ?thesis
    proof (intro conjI allI impI)
      show "fst (void_items now ps (item # items) r u reason) = None"
        unfolding step using ih by blast
    next
      fix pid p assume p: "ps pid = Some p"
      show "\<exists>p'. snd (void_items now ps (item # items) r u reason) pid = Some p'
              \<and> same_static p p'
              \<and> currentStock p' = currentStock p + sold_quantity pid (item # items)"
      proof (cases "si_product item = pid")
        case True
        then have pp: "p = p0" using p Some by simp
        have here: "?ps1 pid = Some p1" using True by simp
        from ih here obtain p' where
          p': "snd (void_items now ?ps1 items r u reason) pid = Some p'" "same_static p1 p'"
            "currentStock p' = currentStock p1 + sold_quantity pid items"
          by blast
        have a: "same_static p p'" using p1(2) p'(2) pp by (blast intro: same_static_trans)
        have b: "currentStock p' = currentStock p + sold_quantity pid (item # items)"
          using p'(3) p1(3) pp True by (simp add: sold_quantity_Cons)
        show ?thesis unfolding step using p'(1) a b by blast
      next
        case False
        have here: "?ps1 pid = Some p" using False p by simp
        from ih here obtain p' where
          p': "snd (void_items now ?ps1 items r u reason) pid = Some p'" "same_static p p'"
            "currentStock p' = currentStock p + sold_quantity pid items"
          by blast
        have b: "currentStock p' = currentStock p + sold_quantity pid (item # items)"
          using p'(3) False by (simp add: sold_quantity_Cons)
        show ?thesis unfolding step using p'(1,2) b by blast
      qed
    qed
  qed
qed

lemma validate_items_fields:
  assumes "validate_items ps requested = Inr items"
  shows "map si_product items = map rq_product requested
       \<and> map si_quantity items = map rq_qty requested"
  using assms
proof (induction requested arbitrary: items)
  case Nil
  then show ?case by simp
next
  case (Cons item requested)
  then show ?case
    by (auto split: option.splits if_splits sum.splits)
qed

lemma calculate_totals_fields:
  "map si_product (s_items (calculate_totals this)) = map si_product (s_items this)"
  "map si_quantity (s_items (calculate_totals this)) = map si_quantity (s_items this)"
  "s_status (calculate_totals this) = s_status this"
  "s_id (calculate_totals this) = s_id this"
  by (simp_all add: calculate_totals_def item_computed_def Let_def comp_def)

lemma createSale_success:
  assumes "createSale now d req userId newId valid = (Inr saleDoc, d1)"
  shows "s_status saleDoc = completed" and "s_id saleDoc = newId"
    and "map si_quantity (s_items saleDoc) = map rq_qty (rq_items req)"
    and "fst (sell_items now (products d) (s_items saleDoc) (receiptNumber saleDoc) userId)
           = None"
    and "products d1 =
           snd (sell_items now (products d) (s_items saleDoc) (receiptNumber saleDoc) userId)"
    and "sales d1 newId = Some saleDoc"
proof -
  obtain items where v: "validate_items (products d) (rq_items req) = Inr items"
    using assms by (cases "validate_items (products d) (rq_items req)")
      (auto simp: createSale_def)
  have m: "mpesa_check (mpesaTransactions d) req = None"
    using assms v by (cases "mpesa_check (mpesaTransactions d) req")
      (auto simp: createSale_def)
  have val: "valid \<and> sale_valid items (rq_totalPaid req)"
    using assms v m by (auto simp: createSale_def split: if_splits)
  obtain sequence cs where g:
    "getNextSequence now (counters d) ''receipt'' no_options = (sequence, cs)"
    by (cases "getNextSequence now (counters d) ''receipt'' no_options")
  let ?doc = "calculate_totals
      \<lparr>s_id = newId, receiptNumber = receipt_text now sequence,
       s_items = items, s_customer = rq_customer req,
       s_paymentMethod = rq_paymentMethod req,
       s_paymentDetails = rq_paymentDetails req,
       s_totalPaid = or_default (rq_totalPaid req) NaN,
       s_totals = \<lparr>tot_subtotal = Num 0, tot_discount = Num 0,
          tot_tax = Num 0, tot_total = Num 0\<rparr>,
       seller = userId, s_status = completed,
       voidInfo = None, refundInfo = None\<rparr>"
  obtain e ps where sl:
    "sell_items now (products d) (s_items ?doc) (receiptNumber ?doc) userId = (e, ps)"
    by (cases "sell_items now (products d) (s_items ?doc) (receiptNumber ?doc) userId")
  have res: "createSale now d req userId newId valid =
      (case e of Some x \<Rightarrow> Inl x | None \<Rightarrow> Inr ?doc,
       d\<lparr>counters := cs, sales := (sales d)(newId \<mapsto> ?doc), products := ps\<rparr>)"
    using v m val g sl by (cases e) (simp_all add: createSale_def Let_def)
  have e: "e = None" and doc: "saleDoc = ?doc"
    and d1: "d1 = d\<lparr>counters := cs, sales := (sales d)(newId \<mapsto> ?doc), products := ps\<rparr>"
    using assms unfolding res by (cases e; simp)+
  show "s_status saleDoc = completed" and "s_id saleDoc = newId"
    unfolding doc by (simp_all add: calculate_totals_fields)
  show "map si_quantity (s_items saleDoc) = map rq_qty (rq_items req)"
    unfolding doc using validate_items_fields [OF v] by (simp add: calculate_totals_fields)
  show "fst (sell_items now (products d) (s_items saleDoc) (receiptNumber saleDoc) userId)
           = None"
    unfolding doc using sl e by simp
  show "products d1 =
           snd (sell_items now (products d) (s_items saleDoc) (receiptNumber saleDoc) userId)"
    unfolding doc d1 using sl by simp
  show "sales d1 newId = Some saleDoc"
    unfolding doc d1 by simp
qed

text \<open>
  A sale that \<open>createSale\<close> has completed can be voided, given that no product had a
  negative stock before the sale and every requested quantity is at least 1 (the route's
  validation). After the void the stored sale is voided, and every product that tracks
  inventory has its pre-sale stock again; a product that does not track inventory, whose
  stock the sale did not touch, ends above its pre-sale stock by the quantity sold.
\<close>

theorem void_after_createSale:
  assumes "createSale now d req userId newId valid = (Inr saleDoc, d1)"
    and "\<forall>pid p. products d pid = Some p \<longrightarrow> 0 \<le> currentStock p"
    and "\<forall>item \<in> set (rq_items req). 1 \<le> rq_qty item"
  shows "\<exists>saleDoc' d2. void_sale now' d1 saleDoc userId' reason = (Inr saleDoc', d2)
           \<and> s_status saleDoc' = voided \<and> sales d2 newId = Some saleDoc'
           \<and> (\<forall>pid p. products d pid = Some p \<longrightarrow>
                 map_option currentStock (products d2 pid) =
                   Some (if trackInventory p then currentStock p
                         else currentStock p + sold_quantity pid (s_items saleDoc)))"
proof -
  let ?items = "s_items saleDoc"
  let ?sold = "sell_items now (products d) ?items (receiptNumber saleDoc) userId"
  note cs = createSale_success [OF assms(1)]
  have nn1: "\<forall>pid p. products d1 pid = Some p \<longrightarrow> 0 \<le> currentStock p"
    unfolding cs(5) by (rule sell_items_nonneg [OF assms(2)])
  have "\<forall>q \<in> set (map si_quantity ?items). 1 \<le> q"
    unfolding cs(3) using assms(3) by simp
  then have qs: "\<forall>item \<in> set ?items. 0 \<le> si_quantity item"
    by fastforce
  let ?voided = "saleDoc\<lparr>s_status := voided,
      voidInfo := Some \<lparr>voidedBy = userId', voidedAt = now', void_reason = reason\<rparr>\<rparr>"
  let ?void = "void_items now' (products d1) ?items (receiptNumber saleDoc) userId' reason"
  have vi: "fst ?void = None"
    and vs: "\<forall>pid p. products d1 pid = Some p \<longrightarrow>
               (\<exists>p'. snd ?void pid = Some p' \<and> same_static p p'
                  \<and> currentStock p' = currentStock p + sold_quantity pid ?items)"
    using void_items_stock [OF nn1 qs] by blast+
  have res: "void_sale now' d1 saleDoc userId' reason =
      (Inr ?voided, d1\<lparr>products := snd ?void, sales := (sales d1)(s_id ?voided \<mapsto> ?voided)\<rparr>)"
    using cs(1) vi by (cases ?void) (simp add: void_sale_def Let_def)
  have stock: "\<forall>pid p. products d pid = Some p \<longrightarrow>
                 map_option currentStock (snd ?void pid) =
                   Some (if trackInventory p then currentStock p
                         else currentStock p + sold_quantity pid ?items)"
  proof (intro allI impI)
    fix pid p assume p: "products d pid = Some p"
    from sell_items_stock [OF cs(4) p] obtain p1 where
      p1: "products d1 pid = Some p1" "same_static p p1"
        "currentStock p1 = (if trackInventory p then currentStock p - sold_quantity pid ?items
                            else currentStock p)"
      unfolding cs(5) by blast
    from vs p1(1) obtain p2 where
      p2: "snd ?void pid = Some p2"
        "currentStock p2 = currentStock p1 + sold_quantity pid ?items"
      by blast
    show "map_option currentStock (snd ?void pid) =
                   Some (if trackInventory p then currentStock p
                         else currentStock p + sold_quantity pid ?items)"
      using p2 p1(3) by simp
  qed
  show ?thesis
    unfolding res using stock cs(2) by simp
qed

theorem void_after_createSale_witness:
  "(\<exists>saleDoc d1 saleDoc' d2.
      createSale now0 db0 request3 7 50 True = (Inr saleDoc, d1)
      \<and> map_option currentStock (products d1 1) = Some 7
      \<and> void_sale now0 d1 saleDoc 7 ''wrong item'' = (Inr saleDoc', d2)
      \<and> s_status saleDoc' = voided
      \<and> map_option currentStock (products d2 1) = Some 10)"
proof -
  obtain saleDoc d1 where c: "createSale now0 db0 request3 7 50 True = (Inr saleDoc, d1)"
    and s7: "map_option currentStock (products d1 1) = Some 7"
    by (simp add: createSale_def db0_def request3_def widget_def now0_def
      mpesa_check_def sale_valid_def item_valid_def counter_eval totals_eval stock_eval
      text_eval)
  have nn: "\<forall>pid p. products db0 pid = Some p \<longrightarrow> 0 \<le> currentStock p"
    by (simp add: db0_def widget_def)
  have q: "\<forall>item \<in> set (rq_items request3). 1 \<le> rq_qty item"
    by (simp add: request3_def)
  have w: "products db0 1 = Some widget" "trackInventory widget" "currentStock widget = 10"
    by (simp_all add: db0_def widget_def)
  from void_after_createSale [OF c nn q, of now0 7 "''wrong item''"] w s7 c
  show ?thesis by fastforce
qed

text \<open>
  The transition check of \<open>updateOrderStatus\<close> on a stored order permits exactly the
  pairs of the table; a request for any other pair is answered with status 400 and a
  message that names the current and the requested status, and writes nothing; a request
  for a pair of the table stores the requested status.
\<close>

theorem updateOrderStatus_rejects_unlisted:
  assumes "orders d orderId = Some order"
  shows "(status \<in> set (validTransitions (o_status order)) \<longleftrightarrow>
            (o_status order, status) \<in>
              {(Pending, Confirmed), (Pending, Cancelled),
               (Confirmed, Processing), (Confirmed, Cancelled),
               (Processing, Ready), (Processing, Cancelled),
               (Ready, OutForDelivery), (Ready, Delivered), (Ready, Cancelled),
               (OutForDelivery, Delivered), (OutForDelivery, Failed),
               (Failed, OutForDelivery), (Failed, Cancelled)})
       \<and> (if status \<in> set (validTransitions (o_status order))
          then map_option o_status
                 (orders (snd (updateOrderStatus now d orderId status notes location userId))
                    orderId) = Some status
          else updateOrderStatus now d orderId status notes location userId =
                 (AppError (''Cannot change status from '' @ status_name (o_status order)
                    @ '' to '' @ status_name status) 400, d))"
proof -
  have tab: "status \<in> set (validTransitions (o_status order)) \<longleftrightarrow>
            (o_status order, status) \<in>
              {(Pending, Confirmed), (Pending, Cancelled),
               (Confirmed, Processing), (Confirmed, Cancelled),
               (Processing, Ready), (Processing, Cancelled),
               (Ready, OutForDelivery), (Ready, Delivered), (Ready, Cancelled),
               (OutForDelivery, Delivered), (OutForDelivery, Failed),
               (Failed, OutForDelivery), (Failed, Cancelled)}"
    by (rule validTransitions_table)
  have rest: "if status \<in> set (validTransitions (o_status order))
          then map_option o_status
                 (orders (snd (updateOrderStatus now d orderId status notes location userId))
                    orderId) = Some status
          else updateOrderStatus now d orderId status notes location userId =
                 (AppError (''Cannot change status from '' @ status_name (o_status order)
                    @ '' to '' @ status_name status) 400, d)"
  proof (cases "status \<in> set (validTransitions (o_status order))")
    case True
    show ?thesis
      unfolding if_P [OF True] by (simp add: updateOrderStatus_orders [OF assms True])
  next
    case False
    show ?thesis
      unfolding if_not_P [OF False] by (rule updateOrderStatus_rejected [OF assms False])
  qed
  show ?thesis by (rule conjI [OF tab rest])
qed

theorem updateOrderStatus_rejects_unlisted_witness:
  "updateOrderStatus now0 (db_order Pending) 20 Delivered None NoLocation 7 =
     (AppError ''Cannot change status from pending to delivered'' 400, db_order Pending)"
proof -
  have o: "orders (db_order Pending) 20 = Some (example_order Pending)"
    by (simp add: db_order_def)
  have st: "o_status (example_order Pending) = Pending"
    by (simp add: example_order_def)
  show ?thesis
    using updateOrderStatus_rejects_unlisted [OF o, of Delivered now0 None NoLocation 7]
    by (simp add: st)
qed

text \<open>
  The totals hook computes no tax for any sale. It leaves every item's tax amount and
  subtotal as they were before the hook, and for a sale with at least one item it leaves
  the sale's tax and total as they were; only the sale's subtotal and discount are
  written, when the sums are numbers.
\<close>

theorem calculate_totals_keeps_tax:
  "map si_taxAmount (s_items (calculate_totals this)) = map si_taxAmount (s_items this)
   \<and> map si_subtotal (s_items (calculate_totals this)) = map si_subtotal (s_items this)
   \<and> (s_items this = []
      \<or> tot_tax (s_totals (calculate_totals this)) = tot_tax (s_totals this)
        \<and> tot_total (s_totals (calculate_totals this)) = tot_total (s_totals this))
   \<and> tot_subtotal (s_totals (calculate_totals this))
       = assign_number (tot_subtotal (s_totals this))
           (sum_items itemSubtotal (Num 0) (s_items this))
   \<and> tot_discount (s_totals (calculate_totals this))
       = assign_number (tot_discount (s_totals this))
           (sum_items itemDiscount (Num 0) (s_items this))"
proof -
  have a: "map si_taxAmount (s_items (calculate_totals this)) = map si_taxAmount (s_items this)"
    and b: "map si_subtotal (s_items (calculate_totals this)) = map si_subtotal (s_items this)"
    by (simp_all add: calculate_totals_def Let_def comp_def item_computed_keeps)
  have c: "tot_tax (s_totals (calculate_totals this)) = tot_tax (s_totals this)
        \<and> tot_total (s_totals (calculate_totals this)) = tot_total (s_totals this)"
    if "s_items this \<noteq> []"
    using sum_items_itemTax [OF that, of "Num 0"]
    by (simp add: calculate_totals_def Let_def)
  have d: "tot_subtotal (s_totals (calculate_totals this))
       = assign_number (tot_subtotal (s_totals this))
           (sum_items itemSubtotal (Num 0) (s_items this))"
    and e: "tot_discount (s_totals (calculate_totals this))
       = assign_number (tot_discount (s_totals this))
           (sum_items itemDiscount (Num 0) (s_items this))"
    by (simp_all add: calculate_totals_def Let_def)
  show ?thesis
    using a b c d e by blast
qed

end
